theory Spec2Isabelle
  imports Main "HOL-Library.AList"
begin

section \<open>Data model\<close>

text \<open>
  The planner works on a graph of mutable Python objects (brokers, partitions,
  replication groups) owned by one \<open>ClusterTopology\<close>. The objects are modelled by
  their keys: a broker by its id, a partition by its name \<open>(topic, index)\<close>. A Python
  \<open>dict\<close> is an association list in the dictionary's iteration order (keys distinct),
  a Python \<open>set\<close> is a list in the set's iteration order (elements distinct), so that
  every loop of the source over a \<open>dict\<close> or a \<open>set\<close> has an order to follow.
\<close>

type_synonym broker_id = int
type_synonym rg_id = string
type_synonym topic_id = string
type_synonym pname = "topic_id \<times> int"

text \<open>
  \<open>Broker\<close>: the class itself is not part of the sources at hand; the fields are the
  attributes the balancer reads (\<open>replication_group\<close>, \<open>decommissioned\<close>, \<open>inactive\<close>,
  \<open>partitions\<close>).
\<close>

record broker =
  replication_group :: rg_id
  decommissioned :: bool
  inactive :: bool
  b_partitions :: "pname list"

text \<open>\<open>Partition\<close>: the ordered replica list; its first element is the preferred leader.\<close>

record partition =
  replicas :: "broker_id list"

text \<open>\<open>ReplicationGroup\<close> of \<open>rg.py\<close>: the fields \<open>_id\<close> and \<open>_brokers\<close>.\<close>

record replication_group =
  rg_ident :: rg_id
  rg_brokers :: "broker_id list"

record cluster_topology =
  brokers :: "(broker_id \<times> broker) list"
  rgs :: "(rg_id \<times> replication_group) list"
  partitions :: "(pname \<times> partition) list"

datatype error =
    InvalidBrokerIdError
  | InvalidPartitionError
  | InvalidReplicationFactorError
  | EmptyReplicationGroupError
  | NotEligibleGroupError
  | BrokerDecommissionError
  | RebalanceError
  | ValueError
  | ZeroDivisionError

text \<open>
  What a call does: it returns, it raises an exception, or it ends the process
  (\<open>sys.exit\<close>). The topology is mutated in place, so an exception or an exit leaves
  the topology as it was at that moment: that topology is part of the outcome.
\<close>

datatype 'a outcome =
    is_returned: Returned 'a
  | is_raised: Raised error cluster_topology
  | is_exited: Exited int cluster_topology

section \<open>Attributes of brokers and partitions\<close>

definition broker_partitions :: "cluster_topology \<Rightarrow> broker_id \<Rightarrow> pname list" where
  "broker_partitions t b =
     (case map_of (brokers t) b of None \<Rightarrow> [] | Some br \<Rightarrow> b_partitions br)"

definition broker_decommissioned :: "cluster_topology \<Rightarrow> broker_id \<Rightarrow> bool" where
  "broker_decommissioned t b =
     (case map_of (brokers t) b of None \<Rightarrow> False | Some br \<Rightarrow> decommissioned br)"

definition partition_replicas :: "cluster_topology \<Rightarrow> pname \<Rightarrow> broker_id list" where
  "partition_replicas t p =
     (case map_of (partitions t) p of None \<Rightarrow> [] | Some pt \<Rightarrow> replicas pt)"

text \<open>
  Modelled from the spec: \<open>Broker.mark_decommissioned\<close> is missing from the sources;
  the spec says the broker is marked decommissioned (its flag is set) and stays a
  member of its group with its partitions.
\<close>

definition mark_decommissioned :: "broker_id \<Rightarrow> cluster_topology \<Rightarrow> cluster_topology" where
  "mark_decommissioned b t =
     t\<lparr>brokers := AList.map_entry b (\<lambda>br. br\<lparr>decommissioned := True\<rparr>) (brokers t)\<rparr>"

text \<open>
  Modelled from the spec: \<open>Broker.empty\<close> is missing from the sources; a broker is
  empty when it holds zero partitions.
\<close>

definition broker_empty :: "cluster_topology \<Rightarrow> broker_id \<Rightarrow> bool" where
  "broker_empty t b = (broker_partitions t b = [])"

section \<open>ReplicationGroup (rg.py)\<close>

text \<open>\<open>add_broker\<close>: the warning written to the log in the else branch is not modelled.\<close>

definition add_broker :: "replication_group \<Rightarrow> broker_id \<Rightarrow> replication_group" where
  "add_broker g b =
     (if b \<notin> set (rg_brokers g) then g\<lparr>rg_brokers := rg_brokers g @ [b]\<rparr> else g)"

text \<open>The property \<open>partitions\<close>: one entry per (broker of the group, partition on it).\<close>

definition rg_partitions :: "cluster_topology \<Rightarrow> replication_group \<Rightarrow> pname list" where
  "rg_partitions t g = concat (map (broker_partitions t) (rg_brokers g))"

definition count_replica :: "cluster_topology \<Rightarrow> replication_group \<Rightarrow> pname \<Rightarrow> nat" where
  "count_replica t g p = count_list (rg_partitions t g) p"

section \<open>Collaborators missing from the sources\<close>

text \<open>
  The balancer calls methods whose code is not part of the sources at hand: the
  \<open>ReplicationGroup\<close> methods \<open>acquire_partition\<close>, \<open>add_replica\<close> and
  \<open>remove_replica\<close>, the \<open>ClusterBalancer.rebalance_replicas\<close> pass and the two
  leadership searches of \<open>Broker\<close>. The \<open>rebalance_brokers\<close> of \<open>rg.py\<close> is at hand,
  but it rests on methods of \<open>Broker\<close> and on \<open>separate_groups\<close>, which are not, and
  the balancer expects an \<open>EmptyReplicationGroupError\<close> from it that this version never
  raises. All of them are parameters of the model: each takes the topology and gives an
  outcome. The leadership searches also extend the two lists they are handed.
\<close>

record collaborators =
  rg_rebalance_brokers :: "replication_group \<Rightarrow> cluster_topology \<Rightarrow> cluster_topology outcome"
  rg_acquire_partition ::
    "replication_group \<Rightarrow> pname \<Rightarrow> broker_id \<Rightarrow> cluster_topology \<Rightarrow> cluster_topology outcome"
  rg_add_replica :: "replication_group \<Rightarrow> pname \<Rightarrow> cluster_topology \<Rightarrow> cluster_topology outcome"
  rg_remove_replica ::
    "replication_group \<Rightarrow> pname \<Rightarrow> broker_id list \<Rightarrow> cluster_topology \<Rightarrow> cluster_topology outcome"
  rebalance_replicas :: "cluster_topology \<Rightarrow> cluster_topology outcome"
  request_leadership ::
    "broker_id \<Rightarrow> int \<Rightarrow> broker_id list \<Rightarrow> pname list \<Rightarrow> cluster_topology
       \<Rightarrow> (cluster_topology \<times> broker_id list \<times> pname list) outcome"
  donate_leadership ::
    "broker_id \<Rightarrow> int \<Rightarrow> broker_id list \<Rightarrow> (broker_id \<times> pname) list \<Rightarrow> cluster_topology
       \<Rightarrow> (cluster_topology \<times> broker_id list \<times> (broker_id \<times> pname) list) outcome"

section \<open>PartitionCountBalancer.decommission\_brokers\<close>

text \<open>
  The first loop of \<open>decommission_brokers\<close>: each id is looked up, and the broker is
  marked at once, before the next id is looked up. The second component collects the
  groups of the marked brokers (a Python \<open>set\<close>).
\<close>

fun mark_brokers ::
  "broker_id list \<Rightarrow> rg_id list \<Rightarrow> cluster_topology \<Rightarrow> (rg_id list \<times> cluster_topology) outcome"
where
  "mark_brokers [] groups t = Returned (groups, t)"
| "mark_brokers (b_id # broker_ids) groups t =
     (case map_of (brokers t) b_id of
        None \<Rightarrow> Raised InvalidBrokerIdError t
      | Some br \<Rightarrow>
          mark_brokers broker_ids (List.insert (replication_group br) groups)
            (mark_decommissioned b_id t))"

text \<open>\<open>_force_broker_decommission\<close>: the inner loop over the groups, sorted by replica count.\<close>

fun try_groups ::
  "collaborators \<Rightarrow> pname \<Rightarrow> broker_id \<Rightarrow> replication_group list \<Rightarrow> cluster_topology
     \<Rightarrow> cluster_topology outcome"
where
  "try_groups C p b [] t = Returned t"
| "try_groups C p b (g # gs) t =
     (case rg_acquire_partition C g p b t of
        Returned t' \<Rightarrow> Returned t'
      | Raised e s \<Rightarrow> (if e = NotEligibleGroupError then try_groups C p b gs s else Raised e s)
      | Exited n s \<Rightarrow> Exited n s)"

fun force_loop ::
  "collaborators \<Rightarrow> broker_id \<Rightarrow> replication_group list \<Rightarrow> pname list \<Rightarrow> cluster_topology
     \<Rightarrow> cluster_topology outcome"
where
  "force_loop C b available [] t = Returned t"
| "force_loop C b available (p # ps) t =
     (case try_groups C p b (sort_key (\<lambda>g. count_replica t g p) available) t of
        Returned t' \<Rightarrow> force_loop C b available ps t'
      | Raised e s \<Rightarrow> Raised e s
      | Exited n s \<Rightarrow> Exited n s)"

definition force_broker_decommission ::
  "collaborators \<Rightarrow> broker_id \<Rightarrow> cluster_topology \<Rightarrow> cluster_topology outcome"
where
  "force_broker_decommission C b t =
     (let available_groups =
            filter (\<lambda>rg. map_option replication_group (map_of (brokers t) b) \<noteq> Some (rg_ident rg))
              (map snd (rgs t))
      in force_loop C b available_groups (broker_partitions t b) t)"

text \<open>\<open>_decommission_brokers_in_group\<close>: the loop over the brokers of the group.\<close>

fun decommission_group_loop ::
  "collaborators \<Rightarrow> broker_id list \<Rightarrow> cluster_topology \<Rightarrow> cluster_topology outcome"
where
  "decommission_group_loop C [] t = Returned t"
| "decommission_group_loop C (b # bs) t =
     (if broker_decommissioned t b \<and> \<not> broker_empty t b then
        (case force_broker_decommission C b t of
           Returned t' \<Rightarrow>
             (if \<not> broker_empty t' b then Raised BrokerDecommissionError t'
              else decommission_group_loop C bs t')
         | Raised e s \<Rightarrow> Raised e s
         | Exited n s \<Rightarrow> Exited n s)
      else decommission_group_loop C bs t)"

definition decommission_brokers_in_group ::
  "collaborators \<Rightarrow> replication_group \<Rightarrow> cluster_topology \<Rightarrow> cluster_topology outcome"
where
  "decommission_brokers_in_group C rg t =
     (case rg_rebalance_brokers C rg t of
        Returned t' \<Rightarrow> decommission_group_loop C (rg_brokers rg) t'
      | Raised e s \<Rightarrow>
          (if e = EmptyReplicationGroupError then decommission_group_loop C (rg_brokers rg) s
           else Raised e s)
      | Exited n s \<Rightarrow> Exited n s)"

text \<open>
  The second loop of \<open>decommission_brokers\<close>, over the groups collected by the
  first. A broker names its group by the group id; an id that is no key of \<open>rgs\<close>
  stands for no group object and is passed over.
\<close>

fun decommission_groups ::
  "collaborators \<Rightarrow> rg_id list \<Rightarrow> cluster_topology \<Rightarrow> cluster_topology outcome"
where
  "decommission_groups C [] t = Returned t"
| "decommission_groups C (g # gs) t =
     (case map_of (rgs t) g of
        None \<Rightarrow> decommission_groups C gs t
      | Some rg \<Rightarrow>
          (case decommission_brokers_in_group C rg t of
             Returned t' \<Rightarrow> decommission_groups C gs t'
           | Raised e s \<Rightarrow> Raised e s
           | Exited n s \<Rightarrow> Exited n s))"

definition decommission_brokers ::
  "collaborators \<Rightarrow> broker_id list \<Rightarrow> cluster_topology \<Rightarrow> cluster_topology outcome"
where
  "decommission_brokers C broker_ids t =
     (case mark_brokers broker_ids [] t of
        Returned (groups, t') \<Rightarrow> decommission_groups C groups t'
      | Raised e s \<Rightarrow> Raised e s
      | Exited n s \<Rightarrow> Exited n s)"

section \<open>Python built-ins and utilities\<close>

text \<open>
  \<open>min(xs, key=f)\<close> and \<open>max(xs, key=f)\<close>: the first element with the least (greatest)
  key; \<open>None\<close> stands for the \<open>ValueError\<close> raised on an empty sequence.
\<close>

fun py_min :: "('a \<Rightarrow> 'k::linorder) \<Rightarrow> 'a list \<Rightarrow> 'a option" where
  "py_min f [] = None"
| "py_min f (x # xs) =
     (case py_min f xs of None \<Rightarrow> Some x | Some y \<Rightarrow> (if f y < f x then Some y else Some x))"

fun py_max :: "('a \<Rightarrow> 'k::linorder) \<Rightarrow> 'a list \<Rightarrow> 'a option" where
  "py_max f [] = None"
| "py_max f (x # xs) =
     (case py_max f xs of None \<Rightarrow> Some x | Some y \<Rightarrow> (if f x < f y then Some y else Some x))"

text \<open>\<open>xs.remove(x)\<close>: drops the first occurrence; \<open>None\<close> is the \<open>ValueError\<close> when absent.\<close>

definition list_remove :: "'a \<Rightarrow> 'a list \<Rightarrow> 'a list option" where
  "list_remove x xs = (if x \<in> set xs then Some (remove1 x xs) else None)"

text \<open>
  Modelled from the spec: \<open>util.compute_optimum\<close> is missing from the sources; the spec
  gives (quotient, remainder) of \<open>total\<close> by \<open>bucket_count\<close> and an error when
  \<open>bucket_count\<close> is 0 (\<open>None\<close> here; the integer division of Python raises
  \<open>ZeroDivisionError\<close>).
\<close>

definition compute_optimum :: "nat \<Rightarrow> nat \<Rightarrow> (nat \<times> nat) option" where
  "compute_optimum bucket_count elements =
     (if bucket_count = 0 then None
      else Some (elements div bucket_count, elements mod bucket_count))"

text \<open>
  Modelled from the spec: \<open>util.separate_groups\<close> is missing from the sources. Following
  the spec, \<open>over\<close> holds the items whose load is above quotient + 1, then the items at
  quotient + 1 beyond the first \<open>remainder\<close> of them, by load descending (a stable
  sort); \<open>under\<close> holds the items whose load is below the quotient.
\<close>

definition separate_groups ::
  "'a list \<Rightarrow> ('a \<Rightarrow> nat) \<Rightarrow> nat \<Rightarrow> ('a list \<times> 'a list) option"
where
  "separate_groups items load_fn elements =
     (case compute_optimum (length items) elements of
        None \<Rightarrow> None
      | Some (optimum, extra) \<Rightarrow>
          (let by_load = sort_key (\<lambda>x. - int (load_fn x)) items
           in Some (filter (\<lambda>x. load_fn x > optimum + 1) by_load
                      @ drop extra (filter (\<lambda>x. load_fn x = optimum + 1) by_load),
                    filter (\<lambda>x. load_fn x < optimum) items)))"

section \<open>Mutators of brokers and partitions\<close>

text \<open>
  Modelled from the spec: \<open>Broker.move_partition\<close> is missing from the sources. By the
  spec's invariant (a broker is in the replica list of a partition exactly when the
  partition is in the broker's partition set) a move takes the partition from the source
  broker and the source broker from the replica list, then gives the partition to the
  destination broker and puts the destination broker into the replica list.
\<close>

definition broker_remove_partition :: "broker_id \<Rightarrow> pname \<Rightarrow> cluster_topology \<Rightarrow> cluster_topology" where
  "broker_remove_partition b p t =
     t\<lparr>brokers := AList.map_entry b (\<lambda>br. br\<lparr>b_partitions := remove1 p (b_partitions br)\<rparr>) (brokers t),
       partitions := AList.map_entry p (\<lambda>pt. pt\<lparr>replicas := remove1 b (replicas pt)\<rparr>) (partitions t)\<rparr>"

definition broker_add_partition :: "broker_id \<Rightarrow> pname \<Rightarrow> cluster_topology \<Rightarrow> cluster_topology" where
  "broker_add_partition b p t =
     t\<lparr>brokers := AList.map_entry b (\<lambda>br. br\<lparr>b_partitions := b_partitions br @ [p]\<rparr>) (brokers t),
       partitions := AList.map_entry p (\<lambda>pt. pt\<lparr>replicas := replicas pt @ [b]\<rparr>) (partitions t)\<rparr>"

definition broker_move_partition ::
  "broker_id \<Rightarrow> pname \<Rightarrow> broker_id \<Rightarrow> cluster_topology \<Rightarrow> cluster_topology"
where
  "broker_move_partition source p destination t =
     broker_add_partition destination p (broker_remove_partition source p t)"

text \<open>
  Modelled from the spec: \<open>Broker.count_partitions(topic)\<close> is missing from the sources;
  it counts the partitions of the topic that the broker holds.
\<close>

definition count_partitions :: "cluster_topology \<Rightarrow> broker_id \<Rightarrow> topic_id \<Rightarrow> nat" where
  "count_partitions t b topic = length (filter (\<lambda>p. fst p = topic) (broker_partitions t b))"

text \<open>
  Modelled from the spec: \<open>Broker.count_preferred_replica\<close> is missing from the sources;
  it counts the partitions on the broker whose preferred leader (the first replica) is
  the broker.
\<close>

definition count_preferred_replica :: "cluster_topology \<Rightarrow> broker_id \<Rightarrow> nat" where
  "count_preferred_replica t b =
     length (filter (\<lambda>p. case partition_replicas t p of [] \<Rightarrow> False | l # _ \<Rightarrow> l = b)
               (broker_partitions t b))"

text \<open>
  Modelled from the spec: \<open>Partition.swap_leader\<close> is missing from the sources; the
  chosen broker becomes the first replica and the others keep their relative order.
\<close>

definition swap_leader :: "pname \<Rightarrow> broker_id \<Rightarrow> cluster_topology \<Rightarrow> cluster_topology" where
  "swap_leader p new_leader t =
     t\<lparr>partitions :=
         AList.map_entry p (\<lambda>pt. pt\<lparr>replicas := new_leader # remove1 new_leader (replicas pt)\<rparr>)
           (partitions t)\<rparr>"

section \<open>ReplicationGroup: moving a partition to another group (rg.py)\<close>

text \<open>
  \<open>_get_eligible_broker_pair\<close>: \<open>max\<close> and \<open>min\<close> are applied to the filtered lists as
  they are, so an empty list raises \<open>ValueError\<close>; the source broker is computed first.
\<close>

definition get_eligible_broker_pair ::
  "cluster_topology \<Rightarrow> replication_group \<Rightarrow> replication_group \<Rightarrow> pname
     \<Rightarrow> error + (broker_id \<times> broker_id)"
where
  "get_eligible_broker_pair t self under_loaded_rg eligible_partition =
     (let under_brokers =
            filter (\<lambda>b. eligible_partition \<notin> set (broker_partitions t b)) (rg_brokers under_loaded_rg);
          over_brokers =
            filter (\<lambda>b. eligible_partition \<in> set (broker_partitions t b)) (rg_brokers self)
      in case py_max (\<lambda>b. length (broker_partitions t b)) over_brokers of
           None \<Rightarrow> Inl ValueError
         | Some source_broker \<Rightarrow>
             (case py_min (\<lambda>b. length (broker_partitions t b)) under_brokers of
                None \<Rightarrow> Inl ValueError
              | Some dest_broker \<Rightarrow> Inr (source_broker, dest_broker)))"

text \<open>
  \<open>move_partition_replica\<close>: the test \<open>if source_broker and dest_broker\<close> is true for
  every pair of broker objects, and no other value reaches it.
\<close>

definition move_partition_replica ::
  "cluster_topology \<Rightarrow> replication_group \<Rightarrow> replication_group \<Rightarrow> pname \<Rightarrow> cluster_topology outcome"
where
  "move_partition_replica t self under_loaded_rg eligible_partition =
     (case get_eligible_broker_pair t self under_loaded_rg eligible_partition of
        Inl e \<Rightarrow> Raised e t
      | Inr (source_broker, dest_broker) \<Rightarrow>
          Returned (broker_move_partition source_broker eligible_partition dest_broker t))"

definition select_over_loaded_brokers ::
  "cluster_topology \<Rightarrow> replication_group \<Rightarrow> pname \<Rightarrow> broker_id list"
where
  "select_over_loaded_brokers t self victim_partition =
     sort_key (\<lambda>b. - int (length (broker_partitions t b)))
       (filter (\<lambda>b. victim_partition \<in> set (broker_partitions t b)) (rg_brokers self))"

definition select_under_loaded_brokers ::
  "cluster_topology \<Rightarrow> replication_group \<Rightarrow> pname \<Rightarrow> broker_id list"
where
  "select_under_loaded_brokers t self victim_partition =
     sort_key (\<lambda>b. length (broker_partitions t b))
       (filter (\<lambda>b. victim_partition \<notin> set (broker_partitions t b)) (rg_brokers self))"

definition elect_source_broker ::
  "cluster_topology \<Rightarrow> broker_id list \<Rightarrow> pname \<Rightarrow> broker_id option"
where
  "elect_source_broker t over_loaded_brokers victim_partition =
     map_option fst
       (py_max snd (map (\<lambda>b. (b, count_partitions t b (fst victim_partition))) over_loaded_brokers))"

definition elect_dest_broker ::
  "cluster_topology \<Rightarrow> broker_id list \<Rightarrow> pname \<Rightarrow> broker_id option"
where
  "elect_dest_broker t under_loaded_brokers victim_partition =
     map_option fst
       (py_min snd (map (\<lambda>b. (b, count_partitions t b (fst victim_partition))) under_loaded_brokers))"

definition select_broker_pair ::
  "cluster_topology \<Rightarrow> replication_group \<Rightarrow> replication_group \<Rightarrow> pname
     \<Rightarrow> error + (broker_id \<times> broker_id)"
where
  "select_broker_pair t self rg_destination victim_partition =
     (let over_loaded_brokers = select_over_loaded_brokers t self victim_partition;
          under_loaded_brokers = select_under_loaded_brokers t rg_destination victim_partition
      in case elect_source_broker t over_loaded_brokers victim_partition of
           None \<Rightarrow> Inl ValueError
         | Some broker_source \<Rightarrow>
             (case elect_dest_broker t under_loaded_brokers victim_partition of
                None \<Rightarrow> Inl ValueError
              | Some broker_destination \<Rightarrow> Inr (broker_source, broker_destination)))"

definition move_partition ::
  "cluster_topology \<Rightarrow> replication_group \<Rightarrow> replication_group \<Rightarrow> pname \<Rightarrow> cluster_topology outcome"
where
  "move_partition t self rg_destination victim_partition =
     (case select_broker_pair t self rg_destination victim_partition of
        Inl e \<Rightarrow> Raised e t
      | Inr (broker_source, broker_destination) \<Rightarrow>
          Returned (broker_move_partition broker_source victim_partition broker_destination t))"

section \<open>PartitionCountBalancer.rebalance\<close>

text \<open>The program arguments read by \<open>rebalance\<close>, with the defaults of \<open>parse_args\<close>.\<close>

record balancer_args =
  args_replication_groups :: bool
  args_brokers :: bool
  args_leaders :: bool
  args_max_partition_movements :: "int option"
  args_max_movement_size :: "int option"
  args_max_leader_changes :: "int option"

text \<open>The truth value Python gives an optional number: \<open>None\<close> and 0 are false.\<close>

definition truthy :: "int option \<Rightarrow> bool" where
  "truthy v = (case v of None \<Rightarrow> False | Some n \<Rightarrow> n \<noteq> 0)"

subsection \<open>Second pass over the replication groups\<close>

text \<open>
  The loops of \<open>_rebalance_groups_partition_cnt\<close> also give the list of the calls of
  \<open>move_partition_replica\<close> they make: the two groups, the partition, whether the call
  is the first one for this pair of groups, and the topology at the moment of the call.
\<close>

record move_event =
  ev_over :: replication_group
  ev_under :: replication_group
  ev_partition :: pname
  ev_first :: bool
  ev_before :: cluster_topology

fun move_eligible ::
  "replication_group \<Rightarrow> replication_group \<Rightarrow> nat \<Rightarrow> bool \<Rightarrow> pname list \<Rightarrow> cluster_topology
     \<Rightarrow> move_event list \<times> cluster_topology outcome"
where
  "move_eligible over_rg under_rg opt_cnt first [] t = ([], Returned t)"
| "move_eligible over_rg under_rg opt_cnt first (p # ps) t =
     (if int (length (rg_partitions t over_rg)) - int (length (rg_partitions t under_rg)) > 1 then
        (let ev = \<lparr>ev_over = over_rg, ev_under = under_rg, ev_partition = p,
                    ev_first = first, ev_before = t\<rparr>
         in case move_partition_replica t over_rg under_rg p of
              Returned t' \<Rightarrow>
                (if length (rg_partitions t' under_rg) = opt_cnt
                    \<or> length (rg_partitions t' over_rg) = opt_cnt
                 then ([ev], Returned t')
                 else (case move_eligible over_rg under_rg opt_cnt False ps t' of
                         (evs, r) \<Rightarrow> (ev # evs, r)))
            | Raised e s \<Rightarrow> ([ev], Raised e s)
            | Exited n s \<Rightarrow> ([ev], Exited n s))
      else ([], Returned t))"

definition eligible_partitions ::
  "cluster_topology \<Rightarrow> replication_group \<Rightarrow> replication_group \<Rightarrow> pname list"
where
  "eligible_partitions t over_rg under_rg =
     remdups
       (filter
          (\<lambda>p. count_replica t over_rg p > length (partition_replicas t p) div length (rgs t)
               \<and> count_replica t under_rg p \<le> length (partition_replicas t p) div length (rgs t))
          (rg_partitions t over_rg))"

fun under_loop ::
  "replication_group \<Rightarrow> nat \<Rightarrow> replication_group list \<Rightarrow> cluster_topology
     \<Rightarrow> move_event list \<times> cluster_topology outcome"
where
  "under_loop over_rg opt_cnt [] t = ([], Returned t)"
| "under_loop over_rg opt_cnt (under_rg # unders) t =
     (case move_eligible over_rg under_rg opt_cnt True (eligible_partitions t over_rg under_rg) t of
        (evs, r) \<Rightarrow>
          (case r of
             Returned t' \<Rightarrow>
               (if length (rg_partitions t' over_rg) = opt_cnt then (evs, Returned t')
                else (case under_loop over_rg opt_cnt unders t' of
                        (evs', r') \<Rightarrow> (evs @ evs', r')))
           | Raised e s \<Rightarrow> (evs, Raised e s)
           | Exited n s \<Rightarrow> (evs, Exited n s)))"

fun over_loop ::
  "nat \<Rightarrow> replication_group list \<Rightarrow> replication_group list \<Rightarrow> cluster_topology
     \<Rightarrow> move_event list \<times> cluster_topology outcome"
where
  "over_loop opt_cnt unders [] t = ([], Returned t)"
| "over_loop opt_cnt unders (over_rg # overs) t =
     (case under_loop over_rg opt_cnt unders t of
        (evs, r) \<Rightarrow>
          (case r of
             Returned t' \<Rightarrow>
               (case over_loop opt_cnt unders overs t' of (evs', r') \<Rightarrow> (evs @ evs', r'))
           | Raised e s \<Rightarrow> (evs, Raised e s)
           | Exited n s \<Rightarrow> (evs, Exited n s)))"

definition rebalance_groups_partition_cnt_moves ::
  "cluster_topology \<Rightarrow> move_event list \<times> cluster_topology outcome"
where
  "rebalance_groups_partition_cnt_moves t =
     (let total_elements = sum_list (map (\<lambda>rg. length (rg_partitions t rg)) (map snd (rgs t)))
      in case separate_groups (map snd (rgs t)) (\<lambda>rg. length (rg_partitions t rg)) total_elements of
           None \<Rightarrow> ([], Raised ZeroDivisionError t)
         | Some (over_loaded_rgs, under_loaded_rgs) \<Rightarrow>
             (if over_loaded_rgs \<noteq> [] \<and> under_loaded_rgs \<noteq> [] then
                (case compute_optimum (length (rgs t)) total_elements of
                   None \<Rightarrow> ([], Raised ZeroDivisionError t)
                 | Some (opt_partition_cnt, _) \<Rightarrow>
                     over_loop opt_partition_cnt under_loaded_rgs over_loaded_rgs t)
              else ([], Returned t)))"

definition rebalance_groups_partition_cnt :: "cluster_topology \<Rightarrow> cluster_topology outcome" where
  "rebalance_groups_partition_cnt t = snd (rebalance_groups_partition_cnt_moves t)"

subsection \<open>The three passes\<close>

definition rebalance_replication_groups ::
  "collaborators \<Rightarrow> cluster_topology \<Rightarrow> cluster_topology outcome"
where
  "rebalance_replication_groups C t =
     (if list_ex (\<lambda>(_, b). inactive b) (brokers t) then Raised RebalanceError t
      else (case rebalance_replicas C t of
              Returned t' \<Rightarrow> rebalance_groups_partition_cnt t'
            | Raised e s \<Rightarrow> Raised e s
            | Exited n s \<Rightarrow> Exited n s))"

fun rebalance_brokers_loop ::
  "collaborators \<Rightarrow> replication_group list \<Rightarrow> cluster_topology \<Rightarrow> cluster_topology outcome"
where
  "rebalance_brokers_loop C [] t = Returned t"
| "rebalance_brokers_loop C (rg # rest) t =
     (case rg_rebalance_brokers C rg t of
        Returned t' \<Rightarrow> rebalance_brokers_loop C rest t'
      | Raised e s \<Rightarrow> Raised e s
      | Exited n s \<Rightarrow> Exited n s)"

definition rebalance_brokers :: "collaborators \<Rightarrow> cluster_topology \<Rightarrow> cluster_topology outcome" where
  "rebalance_brokers C t = rebalance_brokers_loop C (map snd (rgs t)) t"

text \<open>
  \<open>rebalancing_non_followers\<close>: the first loop hands each under-balanced broker to
  \<open>request_leadership\<close>, the second each over-balanced broker to \<open>donate_leadership\<close>.
  The callee receives the lists \<open>skip_brokers\<close> and \<open>skip_partitions\<close> (\<open>used_edges\<close>)
  themselves and may extend them. Besides the outcome, the loops give the list of the
  calls they make: which method, for which broker, with which \<open>skip_brokers\<close>, on
  which topology, and the topology the callee leaves when it returns.
\<close>

datatype leader_call_kind = RequestLeadership | DonateLeadership

record leader_call =
  call_kind :: leader_call_kind
  call_broker :: broker_id
  call_skip_brokers :: "broker_id list"
  call_before :: cluster_topology
  call_after :: "cluster_topology option"

fun request_loop ::
  "collaborators \<Rightarrow> int \<Rightarrow> broker_id list \<Rightarrow> broker_id list \<Rightarrow> pname list \<Rightarrow> cluster_topology
     \<Rightarrow> leader_call list \<times> cluster_topology outcome"
where
  "request_loop C opt_cnt [] skip_brokers skip_partitions t = ([], Returned t)"
| "request_loop C opt_cnt (b # bs) skip_brokers skip_partitions t =
     (case request_leadership C b opt_cnt (skip_brokers @ [b]) skip_partitions t of
        Returned (t', skip_brokers', skip_partitions') \<Rightarrow>
          (case request_loop C opt_cnt bs skip_brokers' skip_partitions' t' of
             (calls, r) \<Rightarrow>
               (\<lparr>call_kind = RequestLeadership, call_broker = b,
                  call_skip_brokers = skip_brokers @ [b], call_before = t,
                  call_after = Some t'\<rparr> # calls, r))
      | Raised e s \<Rightarrow>
          ([\<lparr>call_kind = RequestLeadership, call_broker = b,
              call_skip_brokers = skip_brokers @ [b], call_before = t, call_after = None\<rparr>],
           Raised e s)
      | Exited n s \<Rightarrow>
          ([\<lparr>call_kind = RequestLeadership, call_broker = b,
              call_skip_brokers = skip_brokers @ [b], call_before = t, call_after = None\<rparr>],
           Exited n s))"

fun donate_loop ::
  "collaborators \<Rightarrow> int \<Rightarrow> broker_id list \<Rightarrow> broker_id list \<Rightarrow> (broker_id \<times> pname) list
     \<Rightarrow> cluster_topology \<Rightarrow> leader_call list \<times> cluster_topology outcome"
where
  "donate_loop C opt_cnt [] skip_brokers used_edges t = ([], Returned t)"
| "donate_loop C opt_cnt (b # bs) skip_brokers used_edges t =
     (case donate_leadership C b opt_cnt (skip_brokers @ [b]) used_edges t of
        Returned (t', skip_brokers', used_edges') \<Rightarrow>
          (case donate_loop C opt_cnt bs skip_brokers' used_edges' t' of
             (calls, r) \<Rightarrow>
               (\<lparr>call_kind = DonateLeadership, call_broker = b,
                  call_skip_brokers = skip_brokers @ [b], call_before = t,
                  call_after = Some t'\<rparr> # calls, r))
      | Raised e s \<Rightarrow>
          ([\<lparr>call_kind = DonateLeadership, call_broker = b,
              call_skip_brokers = skip_brokers @ [b], call_before = t, call_after = None\<rparr>],
           Raised e s)
      | Exited n s \<Rightarrow>
          ([\<lparr>call_kind = DonateLeadership, call_broker = b,
              call_skip_brokers = skip_brokers @ [b], call_before = t, call_after = None\<rparr>],
           Exited n s))"

definition under_brokers_of :: "cluster_topology \<Rightarrow> int \<Rightarrow> broker_id list" where
  "under_brokers_of t opt_cnt =
     filter (\<lambda>b. int (count_preferred_replica t b) < opt_cnt) (map fst (brokers t))"

definition over_brokers_of :: "cluster_topology \<Rightarrow> int \<Rightarrow> broker_id list" where
  "over_brokers_of t opt_cnt =
     filter (\<lambda>b. int (count_preferred_replica t b) > opt_cnt + 1) (map fst (brokers t))"

definition rebalancing_non_followers_calls ::
  "collaborators \<Rightarrow> int \<Rightarrow> cluster_topology \<Rightarrow> leader_call list \<times> cluster_topology outcome"
where
  "rebalancing_non_followers_calls C opt_cnt t =
     (case request_loop C opt_cnt (under_brokers_of t opt_cnt) [] [] t of
        (pulls, r) \<Rightarrow>
          (case r of
             Returned t' \<Rightarrow>
               (case donate_loop C opt_cnt (over_brokers_of t' opt_cnt) [] [] t' of
                  (pushes, r') \<Rightarrow> (pulls @ pushes, r'))
           | Raised e s \<Rightarrow> (pulls, Raised e s)
           | Exited n s \<Rightarrow> (pulls, Exited n s)))"

definition rebalancing_non_followers ::
  "collaborators \<Rightarrow> int \<Rightarrow> cluster_topology \<Rightarrow> cluster_topology outcome"
where
  "rebalancing_non_followers C opt_cnt t = snd (rebalancing_non_followers_calls C opt_cnt t)"

definition opt_leader_cnt :: "cluster_topology \<Rightarrow> int" where
  "opt_leader_cnt t = int (length (partitions t)) div int (length (brokers t))"

definition rebalance_leaders_calls ::
  "collaborators \<Rightarrow> cluster_topology \<Rightarrow> leader_call list \<times> cluster_topology outcome"
where
  "rebalance_leaders_calls C t =
     (if length (brokers t) = 0 then ([], Raised ZeroDivisionError t)
      else rebalancing_non_followers_calls C (opt_leader_cnt t) t)"

definition rebalance_leaders :: "collaborators \<Rightarrow> cluster_topology \<Rightarrow> cluster_topology outcome" where
  "rebalance_leaders C t = snd (rebalance_leaders_calls C t)"

definition rebalance ::
  "collaborators \<Rightarrow> balancer_args \<Rightarrow> cluster_topology \<Rightarrow> cluster_topology outcome"
where
  "rebalance C args t =
     (if truthy (args_max_movement_size args) then Exited 1 t
      else
        (case (if args_replication_groups args then rebalance_replication_groups C t
               else Returned t) of
           Returned t1 \<Rightarrow>
             (case (if args_brokers args then rebalance_brokers C t1 else Returned t1) of
                Returned t2 \<Rightarrow>
                  (if args_leaders args then rebalance_leaders C t2 else Returned t2)
              | Raised e s \<Rightarrow> Raised e s
              | Exited n s \<Rightarrow> Exited n s)
         | Raised e s \<Rightarrow> Raised e s
         | Exited n s \<Rightarrow> Exited n s))"

section \<open>PartitionCountBalancer.add\_replica\<close>

text \<open>
  The choice of the group in one round of \<open>add_replica\<close>: the candidates, then the
  first candidate with the fewest partitions.
\<close>

definition addition_candidates ::
  "cluster_topology \<Rightarrow> pname \<Rightarrow> replication_group list \<Rightarrow> error + replication_group list"
where
  "addition_candidates t p non_full_rgs =
     (let total_replicas = sum_list (map (\<lambda>rg. count_replica t rg p) non_full_rgs)
      in case compute_optimum (length non_full_rgs) total_replicas of
           None \<Rightarrow> Inl ZeroDivisionError
         | Some (opt_replicas, _) \<Rightarrow>
             (let under_replicated_rgs =
                    filter (\<lambda>rg. count_replica t rg p < opt_replicas) non_full_rgs
              in Inr (if under_replicated_rgs \<noteq> [] then under_replicated_rgs else non_full_rgs)))"

definition select_addition_rg ::
  "cluster_topology \<Rightarrow> pname \<Rightarrow> replication_group list \<Rightarrow> error + replication_group"
where
  "select_addition_rg t p non_full_rgs =
     (case addition_candidates t p non_full_rgs of
        Inl e \<Rightarrow> Inl e
      | Inr candidate_rgs \<Rightarrow>
          (case py_min (\<lambda>rg. length (rg_partitions t rg)) candidate_rgs of
             None \<Rightarrow> Inl ValueError
           | Some rg \<Rightarrow> Inr rg))"

fun add_replica_loop ::
  "collaborators \<Rightarrow> pname \<Rightarrow> nat \<Rightarrow> replication_group list \<Rightarrow> cluster_topology
     \<Rightarrow> cluster_topology outcome"
where
  "add_replica_loop C p 0 non_full_rgs t = Returned t"
| "add_replica_loop C p (Suc n) non_full_rgs t =
     (case select_addition_rg t p non_full_rgs of
        Inl e \<Rightarrow> Raised e t
      | Inr rg \<Rightarrow>
          (case rg_add_replica C rg p t of
             Returned t' \<Rightarrow>
               (if count_replica t' rg p \<ge> length (rg_brokers rg) then
                  (case list_remove rg non_full_rgs of
                     None \<Rightarrow> Raised ValueError t'
                   | Some non_full_rgs' \<Rightarrow> add_replica_loop C p n non_full_rgs' t')
                else add_replica_loop C p n non_full_rgs t')
           | Raised e s \<Rightarrow> Raised e s
           | Exited m s \<Rightarrow> Exited m s))"

definition add_replica ::
  "collaborators \<Rightarrow> pname \<Rightarrow> int \<Rightarrow> cluster_topology \<Rightarrow> cluster_topology outcome"
where
  "add_replica C partition_name cnt t =
     (case map_of (partitions t) partition_name of
        None \<Rightarrow> Raised InvalidPartitionError t
      | Some pt \<Rightarrow>
          (if int (length (replicas pt)) + cnt > int (length (brokers t)) then
             Raised InvalidReplicationFactorError t
           else
             add_replica_loop C partition_name (nat cnt)
               (filter (\<lambda>rg. count_replica t rg partition_name < length (rg_brokers rg))
                  (map snd (rgs t)))
               t))"

section \<open>PartitionCountBalancer.remove\_replica\<close>

text \<open>
  The loop that resolves \<open>osr_broker_ids\<close>: \<open>None\<close> is the \<open>KeyError\<close> of the first
  id that is no key of \<open>brokers\<close>. The brokers found are kept as they come; nothing
  is asked about the partitions they hold.
\<close>

fun osr_brokers :: "cluster_topology \<Rightarrow> broker_id list \<Rightarrow> broker_id list option" where
  "osr_brokers t [] = Some []"
| "osr_brokers t (broker_id # ids) =
     (case map_of (brokers t) broker_id of
        None \<Rightarrow> None
      | Some _ \<Rightarrow> map_option ((#) broker_id) (osr_brokers t ids))"

definition non_empty_rgs_of :: "cluster_topology \<Rightarrow> pname \<Rightarrow> replication_group list" where
  "non_empty_rgs_of t p = filter (\<lambda>rg. count_replica t rg p > 0) (map snd (rgs t))"

definition rgs_with_osr_of ::
  "broker_id list \<Rightarrow> replication_group list \<Rightarrow> replication_group list"
where
  "rgs_with_osr_of osr non_empty_rgs =
     filter (\<lambda>rg. list_ex (\<lambda>b. b \<in> set osr) (rg_brokers rg)) non_empty_rgs"

text \<open>
  The choice of the group in one round of \<open>remove_replica\<close>: the candidates, then the
  first candidate with the most partitions.
\<close>

definition removal_candidates ::
  "cluster_topology \<Rightarrow> pname \<Rightarrow> replication_group list \<Rightarrow> replication_group list
     \<Rightarrow> error + replication_group list"
where
  "removal_candidates t p rgs_with_osr non_empty_rgs =
     (let candidate_rgs = (if rgs_with_osr \<noteq> [] then rgs_with_osr else non_empty_rgs);
          total_replicas = sum_list (map (\<lambda>rg. count_replica t rg p) candidate_rgs)
      in case compute_optimum (length candidate_rgs) total_replicas of
           None \<Rightarrow> Inl ZeroDivisionError
         | Some (opt_replica_cnt, _) \<Rightarrow>
             (let over_replicated_rgs =
                    filter (\<lambda>rg. count_replica t rg p > opt_replica_cnt) candidate_rgs
              in Inr (if over_replicated_rgs \<noteq> [] then over_replicated_rgs else candidate_rgs)))"

definition select_removal_rg ::
  "cluster_topology \<Rightarrow> pname \<Rightarrow> replication_group list \<Rightarrow> replication_group list
     \<Rightarrow> error + replication_group"
where
  "select_removal_rg t p rgs_with_osr non_empty_rgs =
     (case removal_candidates t p rgs_with_osr non_empty_rgs of
        Inl e \<Rightarrow> Inl e
      | Inr candidate_rgs \<Rightarrow>
          (case py_max (\<lambda>rg. length (rg_partitions t rg)) candidate_rgs of
             None \<Rightarrow> Inl ValueError
           | Some rg \<Rightarrow> Inr rg))"

text \<open>
  The rounds of \<open>remove_replica\<close>. Besides the outcome the loop gives, for each round
  it starts, the values the selection of that round reads: the list \<open>osr\<close>, the lists
  \<open>rgs_with_osr\<close> and \<open>non_empty_rgs\<close>, and the topology.
\<close>

record removal_round =
  rr_osr :: "broker_id list"
  rr_rgs_with_osr :: "replication_group list"
  rr_non_empty_rgs :: "replication_group list"
  rr_topology :: cluster_topology

fun remove_replica_loop ::
  "collaborators \<Rightarrow> pname \<Rightarrow> nat \<Rightarrow> broker_id list \<Rightarrow> replication_group list
     \<Rightarrow> replication_group list \<Rightarrow> cluster_topology
     \<Rightarrow> removal_round list \<times> cluster_topology outcome"
where
  "remove_replica_loop C p 0 osr rgs_with_osr non_empty_rgs t = ([], Returned t)"
| "remove_replica_loop C p (Suc n) osr rgs_with_osr non_empty_rgs t =
     (let round = \<lparr>rr_osr = osr, rr_rgs_with_osr = rgs_with_osr,
                   rr_non_empty_rgs = non_empty_rgs, rr_topology = t\<rparr>
      in case select_removal_rg t p rgs_with_osr non_empty_rgs of
           Inl e \<Rightarrow> ([round], Raised e t)
         | Inr rg \<Rightarrow>
             (let osr_in_rg = filter (\<lambda>b. b \<in> set osr) (rg_brokers rg)
              in case rg_remove_replica C rg p osr_in_rg t of
                   Returned t' \<Rightarrow>
                     (let osr' = filter (\<lambda>b. b \<in> set (partition_replicas t' p)) osr;
                          rgs_with_osr' =
                            (if rg \<in> set rgs_with_osr \<and> length osr_in_rg = 1
                             then remove1 rg rgs_with_osr else rgs_with_osr)
                      in if count_replica t' rg p = 0 then
                           (case list_remove rg non_empty_rgs of
                              None \<Rightarrow> ([round], Raised ValueError t')
                            | Some non_empty_rgs' \<Rightarrow>
                                (case remove_replica_loop C p n osr' rgs_with_osr' non_empty_rgs' t' of
                                   (rounds, r) \<Rightarrow> (round # rounds, r)))
                         else
                           (case remove_replica_loop C p n osr' rgs_with_osr' non_empty_rgs t' of
                              (rounds, r) \<Rightarrow> (round # rounds, r)))
                 | Raised e s \<Rightarrow> ([round], Raised e s)
                 | Exited m s \<Rightarrow> ([round], Exited m s)))"

text \<open>The last step: the replica that leads the fewest partitions becomes the leader.\<close>

definition reseat_leader :: "pname \<Rightarrow> cluster_topology \<Rightarrow> cluster_topology outcome" where
  "reseat_leader p t =
     (case py_min (\<lambda>b. count_preferred_replica t b) (partition_replicas t p) of
        None \<Rightarrow> Raised ValueError t
      | Some new_leader \<Rightarrow> Returned (swap_leader p new_leader t))"

definition remove_replica_rounds ::
  "collaborators \<Rightarrow> pname \<Rightarrow> broker_id list \<Rightarrow> int \<Rightarrow> cluster_topology
     \<Rightarrow> removal_round list \<times> cluster_topology outcome"
where
  "remove_replica_rounds C partition_name osr_broker_ids cnt t =
     (case map_of (partitions t) partition_name of
        None \<Rightarrow> ([], Raised InvalidPartitionError t)
      | Some pt \<Rightarrow>
          (if int (length (replicas pt)) \<le> cnt then ([], Raised InvalidReplicationFactorError t)
           else
             (case osr_brokers t osr_broker_ids of
                None \<Rightarrow> ([], Raised InvalidBrokerIdError t)
              | Some osr \<Rightarrow>
                  (let non_empty_rgs = non_empty_rgs_of t partition_name;
                       rgs_with_osr = rgs_with_osr_of osr non_empty_rgs
                   in case remove_replica_loop C partition_name (nat cnt) osr rgs_with_osr
                             non_empty_rgs t of
                        (rounds, r) \<Rightarrow>
                          (case r of
                             Returned t' \<Rightarrow> (rounds, reseat_leader partition_name t')
                           | Raised e s \<Rightarrow> (rounds, Raised e s)
                           | Exited m s \<Rightarrow> (rounds, Exited m s))))))"

definition remove_replica ::
  "collaborators \<Rightarrow> pname \<Rightarrow> broker_id list \<Rightarrow> int \<Rightarrow> cluster_topology \<Rightarrow> cluster_topology outcome"
where
  "remove_replica C partition_name osr_broker_ids cnt t =
     snd (remove_replica_rounds C partition_name osr_broker_ids cnt t)"

section \<open>Instances of the collaborators\<close>

text \<open>
  Modelled from the spec: \<open>ReplicationGroup.add_replica\<close> is missing from the sources.
  The spec picks, inside the group, a broker that does not hold the partition and has
  the fewest partitions (ties by broker id) and appends it to the replica list; it adds
  no decommissioned broker. The spec does not say what happens when no such broker is
  left; the lookup of the least element fails then.
\<close>

definition spec_rg_add_replica ::
  "replication_group \<Rightarrow> pname \<Rightarrow> cluster_topology \<Rightarrow> cluster_topology outcome"
where
  "spec_rg_add_replica rg p t =
     (case py_min (\<lambda>b. length (broker_partitions t b))
             (filter (\<lambda>b. p \<notin> set (broker_partitions t b) \<and> \<not> broker_decommissioned t b)
                (sort (rg_brokers rg))) of
        None \<Rightarrow> Raised ValueError t
      | Some b \<Rightarrow> Returned (broker_add_partition b p t))"

text \<open>
  Modelled from the spec: \<open>ReplicationGroup.remove_replica\<close> is missing from the
  sources. The spec removes one broker of the group from the replica list: an
  out-of-sync broker if any was handed over, else the broker with the highest partition
  count among those of the group that hold the partition.
\<close>

definition spec_rg_remove_replica ::
  "replication_group \<Rightarrow> pname \<Rightarrow> broker_id list \<Rightarrow> cluster_topology \<Rightarrow> cluster_topology outcome"
where
  "spec_rg_remove_replica rg p osr_in_rg t =
     (case osr_in_rg of
        b # _ \<Rightarrow> Returned (broker_remove_partition b p t)
      | [] \<Rightarrow>
          (case py_max (\<lambda>b. length (broker_partitions t b))
                  (filter (\<lambda>b. p \<in> set (broker_partitions t b)) (rg_brokers rg)) of
             None \<Rightarrow> Raised ValueError t
           | Some b \<Rightarrow> Returned (broker_remove_partition b p t)))"

text \<open>
  Modelled from the spec: \<open>ReplicationGroup.acquire_partition\<close> is missing from the
  sources. The destination is a broker of the group that does not hold the partition,
  with the lowest count of partitions of the same topic; \<open>NotEligibleGroupError\<close> when
  every broker of the group holds the partition.
\<close>

definition spec_rg_acquire_partition ::
  "replication_group \<Rightarrow> pname \<Rightarrow> broker_id \<Rightarrow> cluster_topology \<Rightarrow> cluster_topology outcome"
where
  "spec_rg_acquire_partition rg p source_broker t =
     (case elect_dest_broker t (select_under_loaded_brokers t rg p) p of
        None \<Rightarrow> Raised NotEligibleGroupError t
      | Some destination \<Rightarrow> Returned (broker_move_partition source_broker p destination t))"

text \<open>
  Modelled from the spec: \<open>Broker.request_leadership\<close> and \<open>Broker.donate_leadership\<close>
  are missing from the sources. Of the searches of the spec only the direct step is
  modelled here: a broker takes the leadership of a partition it follows when the
  leader keeps at least \<open>opt\<close> partitions, until it leads \<open>opt\<close> partitions; a broker
  gives the leadership of a partition it leads to a follower that leads fewer than
  \<open>opt\<close> partitions, until it leads \<open>opt + 1\<close> partitions.
\<close>

fun request_direct :: "broker_id \<Rightarrow> int \<Rightarrow> pname list \<Rightarrow> cluster_topology \<Rightarrow> cluster_topology" where
  "request_direct b opt_cnt [] t = t"
| "request_direct b opt_cnt (p # ps) t =
     (if int (count_preferred_replica t b) \<ge> opt_cnt then t
      else (case partition_replicas t p of
              [] \<Rightarrow> request_direct b opt_cnt ps t
            | l # _ \<Rightarrow>
                (if l \<noteq> b \<and> int (count_preferred_replica t l) - 1 \<ge> opt_cnt
                 then request_direct b opt_cnt ps (swap_leader p b t)
                 else request_direct b opt_cnt ps t)))"

definition spec_request_leadership ::
  "broker_id \<Rightarrow> int \<Rightarrow> broker_id list \<Rightarrow> pname list \<Rightarrow> cluster_topology
     \<Rightarrow> (cluster_topology \<times> broker_id list \<times> pname list) outcome"
where
  "spec_request_leadership b opt_cnt skip_brokers skip_partitions t =
     Returned
       (request_direct b opt_cnt
          (filter (\<lambda>p. p \<notin> set skip_partitions) (broker_partitions t b)) t,
        skip_brokers, skip_partitions)"

fun donate_direct :: "broker_id \<Rightarrow> int \<Rightarrow> pname list \<Rightarrow> cluster_topology \<Rightarrow> cluster_topology" where
  "donate_direct b opt_cnt [] t = t"
| "donate_direct b opt_cnt (p # ps) t =
     (if int (count_preferred_replica t b) \<le> opt_cnt + 1 then t
      else (case partition_replicas t p of
              [] \<Rightarrow> donate_direct b opt_cnt ps t
            | l # followers \<Rightarrow>
                (case filter (\<lambda>f. int (count_preferred_replica t f) < opt_cnt) followers of
                   [] \<Rightarrow> donate_direct b opt_cnt ps t
                 | f # _ \<Rightarrow>
                     (if l = b then donate_direct b opt_cnt ps (swap_leader p f t)
                      else donate_direct b opt_cnt ps t))))"

definition spec_donate_leadership ::
  "broker_id \<Rightarrow> int \<Rightarrow> broker_id list \<Rightarrow> (broker_id \<times> pname) list \<Rightarrow> cluster_topology
     \<Rightarrow> (cluster_topology \<times> broker_id list \<times> (broker_id \<times> pname) list) outcome"
where
  "spec_donate_leadership b opt_cnt skip_brokers used_edges t =
     Returned (donate_direct b opt_cnt (broker_partitions t b) t, skip_brokers, used_edges)"

text \<open>
  The collaborators of the examples. The intra-group rebalance and the replica pass
  over the groups are left as passes that move nothing.
\<close>

definition example_collaborators :: collaborators where
  "example_collaborators =
     \<lparr>rg_rebalance_brokers = (\<lambda>rg t. Returned t),
      rg_acquire_partition = spec_rg_acquire_partition,
      rg_add_replica = spec_rg_add_replica,
      rg_remove_replica = spec_rg_remove_replica,
      rebalance_replicas = (\<lambda>t. Returned t),
      request_leadership = spec_request_leadership,
      donate_leadership = spec_donate_leadership\<rparr>"


section \<open>Notions of the spec\<close>

text \<open>
  The count of active brokers the spec speaks of: the brokers that are neither inactive
  nor decommissioned. The balancer computes no such count.
\<close>

definition active_broker_count :: "cluster_topology \<Rightarrow> nat" where
  "active_broker_count t =
     length (filter (\<lambda>(_, b). \<not> inactive b \<and> \<not> decommissioned b) (brokers t))"

section \<open>Conditions used in the statements\<close>







text \<open>
  The invariants of the spec's data model that the statement on \<open>remove_replica\<close>
  relies on. Every broker belongs to exactly one replication group:
\<close>

definition groups_ok :: "cluster_topology \<Rightarrow> bool" where
  "groups_ok t \<longleftrightarrow>
     distinct (map snd (rgs t))
     \<and> (\<forall>g\<in>set (map snd (rgs t)). distinct (rg_brokers g))
     \<and> (\<forall>g\<in>set (map snd (rgs t)). \<forall>g'\<in>set (map snd (rgs t)).
           g \<noteq> g' \<longrightarrow> set (rg_brokers g) \<inter> set (rg_brokers g') = {})"

text \<open>
  The replicas of a partition are distinct brokers, a broker holds a partition once,
  and a broker is in the replica list of the partition exactly when the partition is
  in the broker's partition set:
\<close>

definition placement_ok :: "cluster_topology \<Rightarrow> pname \<Rightarrow> bool" where
  "placement_ok t p \<longleftrightarrow>
     distinct (partition_replicas t p)
     \<and> (\<forall>b. distinct (broker_partitions t b))
     \<and> (\<forall>b. p \<in> set (broker_partitions t b) \<longleftrightarrow> b \<in> set (partition_replicas t p))"

text \<open>
  What the spec says of the group-level \<open>remove_replica\<close>, as far as it returns: it
  removes one broker of the group from the replica list, one of the out-of-sync brokers
  handed over if there are any, and keeps the invariants.
\<close>

definition removal_contract :: "collaborators \<Rightarrow> pname \<Rightarrow> bool" where
  "removal_contract C p \<longleftrightarrow>
     (\<forall>rg osr_in_rg s s'.
        placement_ok s p
        \<and> set osr_in_rg \<subseteq> {b \<in> set (rg_brokers rg). p \<in> set (broker_partitions s b)}
        \<and> rg_remove_replica C rg p osr_in_rg s = Returned s'
        \<longrightarrow> (\<exists>b. b \<in> set (rg_brokers rg) \<and> p \<in> set (broker_partitions s b)
                 \<and> (osr_in_rg \<noteq> [] \<longrightarrow> b \<in> set osr_in_rg)
                 \<and> rgs s' = rgs s \<and> placement_ok s' p
                 \<and> set (partition_replicas s' p) = set (partition_replicas s p) - {b}))"

text \<open>
  What C4 says of a round of \<open>remove_replica\<close>: the out-of-sync list is the set of
  the brokers named by the ids that hold a replica of the partition, and the preferred
  groups are the groups holding the partition that contain such a broker. The groups
  holding the partition are part of the round as well.
\<close>

definition round_as_claimed :: "broker_id list \<Rightarrow> pname \<Rightarrow> removal_round \<Rightarrow> bool" where
  "round_as_claimed ids p r \<longleftrightarrow>
     set (rr_osr r) = {b \<in> set ids. b \<in> set (partition_replicas (rr_topology r) p)}
     \<and> set (rr_rgs_with_osr r) =
         {g \<in> set (map snd (rgs (rr_topology r))).
            count_replica (rr_topology r) g p > 0 \<and> (\<exists>b\<in>set (rg_brokers g). b \<in> set (rr_osr r))}
     \<and> set (rr_non_empty_rgs r) =
         {g \<in> set (map snd (rgs (rr_topology r))). count_replica (rr_topology r) g p > 0}"

section \<open>Example topologies\<close>

definition mk_broker :: "rg_id \<Rightarrow> pname list \<Rightarrow> broker" where
  "mk_broker g ps =
     \<lparr>replication_group = g, decommissioned = False, inactive = False, b_partitions = ps\<rparr>"

definition mk_rg :: "rg_id \<Rightarrow> broker_id list \<Rightarrow> replication_group" where
  "mk_rg g bs = \<lparr>rg_ident = g, rg_brokers = bs\<rparr>"

text \<open>Two groups of two brokers; the partition \<open>(t, 0)\<close> is on the brokers 1, 3 and 4.\<close>

definition topology_two_groups :: cluster_topology where
  "topology_two_groups =
     \<lparr>brokers =
        [(1, mk_broker ''a'' [(''t'', 0)]), (2, mk_broker ''a'' []),
         (3, mk_broker ''b'' [(''t'', 0)]), (4, mk_broker ''b'' [(''t'', 0)])],
      rgs = [(''a'', mk_rg ''a'' [1, 2]), (''b'', mk_rg ''b'' [3, 4])],
      partitions = [((''t'', 0), \<lparr>replicas = [1, 3, 4]\<rparr>)]\<rparr>"

text \<open>One group of two brokers, the second one inactive; \<open>(t, 0)\<close> is on broker 1.\<close>

definition topology_inactive :: cluster_topology where
  "topology_inactive =
     \<lparr>brokers =
        [(1, mk_broker ''a'' [(''t'', 0)]), (2, (mk_broker ''a'' [])\<lparr>inactive := True\<rparr>)],
      rgs = [(''a'', mk_rg ''a'' [1, 2])],
      partitions = [((''t'', 0), \<lparr>replicas = [1]\<rparr>)]\<rparr>"




text \<open>
  Two groups, of three brokers and of one broker; \<open>(t, 0)\<close> is on all four brokers.
\<close>

definition topology_full_destination :: cluster_topology where
  "topology_full_destination =
     \<lparr>brokers =
        [(1, mk_broker ''a'' [(''t'', 0)]), (2, mk_broker ''a'' [(''t'', 0)]),
         (3, mk_broker ''a'' [(''t'', 0)]), (4, mk_broker ''b'' [(''t'', 0)])],
      rgs = [(''a'', mk_rg ''a'' [1, 2, 3]), (''b'', mk_rg ''b'' [4])],
      partitions = [((''t'', 0), \<lparr>replicas = [1, 2, 3, 4]\<rparr>)]\<rparr>"

text \<open>Two brokers in one group, four partitions, all led by broker 1.\<close>

definition topology_leaders :: cluster_topology where
  "topology_leaders =
     \<lparr>brokers =
        [(1, mk_broker ''a'' [(''t'', 0), (''t'', 1), (''t'', 2), (''t'', 3)]),
         (2, mk_broker ''a'' [(''t'', 0), (''t'', 1), (''t'', 2), (''t'', 3)])],
      rgs = [(''a'', mk_rg ''a'' [1, 2])],
      partitions =
        [((''t'', 0), \<lparr>replicas = [1, 2]\<rparr>), ((''t'', 1), \<lparr>replicas = [1, 2]\<rparr>),
         ((''t'', 2), \<lparr>replicas = [1, 2]\<rparr>), ((''t'', 3), \<lparr>replicas = [1, 2]\<rparr>)]\<rparr>"


definition args_movement_size :: balancer_args where
  "args_movement_size =
     \<lparr>args_replication_groups = True, args_brokers = True, args_leaders = True,
      args_max_partition_movements = None, args_max_movement_size = Some 1024,
      args_max_leader_changes = None\<rparr>"

section \<open>Helper lemmas\<close>

lemma py_min_None_iff: "py_min f xs = None \<longleftrightarrow> xs = []"
  by (induction xs) (auto split: option.splits)

lemma py_max_None_iff: "py_max f xs = None \<longleftrightarrow> xs = []"
  by (induction xs) (auto split: option.splits)

section \<open>decommission\_brokers with an unknown id\<close>

lemma map_of_mark_decommissioned:
  "map_of (brokers (mark_decommissioned b t)) x =
     (if x = b then map_option (\<lambda>br. br\<lparr>decommissioned := True\<rparr>) (map_of (brokers t) x)
      else map_of (brokers t) x)"
  by (simp add: mark_decommissioned_def map_of_map_entry split: option.splits)

lemma fst_map_entry: "map fst (AList.map_entry k f xs) = map fst xs"
  by (induction xs) auto

lemma mark_decommissioned_fields:
  "partitions (mark_decommissioned b t) = partitions t"
  "rgs (mark_decommissioned b t) = rgs t"
  "map fst (brokers (mark_decommissioned b t)) = map fst (brokers t)"
  by (simp_all add: mark_decommissioned_def fst_map_entry)

lemma fold_mark_fields:
  "partitions (fold mark_decommissioned bs t) = partitions t"
  "rgs (fold mark_decommissioned bs t) = rgs t"
  "map fst (brokers (fold mark_decommissioned bs t)) = map fst (brokers t)"
  by (induction bs arbitrary: t) (simp_all add: mark_decommissioned_fields)

lemma map_of_fold_mark:
  "map_of (brokers (fold mark_decommissioned bs t)) x =
     map_option (\<lambda>br. br\<lparr>decommissioned := decommissioned br \<or> x \<in> set bs\<rparr>) (map_of (brokers t) x)"
proof (induction bs arbitrary: t)
  case Nil
  show ?case by (cases "map_of (brokers t) x") simp_all
next
  case (Cons b bs)
  show ?case
    by (cases "map_of (brokers t) x") (auto simp: Cons map_of_mark_decommissioned)
qed

lemma mark_brokers_invalid:
  assumes "\<exists>b\<in>set ids. map_of (brokers t) b = None"
  shows "mark_brokers ids groups t =
           Raised InvalidBrokerIdError
             (fold mark_decommissioned (takeWhile (\<lambda>b. map_of (brokers t) b \<noteq> None) ids) t)"
  using assms
proof (induction ids arbitrary: groups t)
  case Nil
  then show ?case by simp
next
  case (Cons b ids)
  show ?case
  proof (cases "map_of (brokers t) b")
    case None
    then show ?thesis by simp
  next
    case (Some br)
    have same: "\<And>x. (map_of (brokers (mark_decommissioned b t)) x = None) = (map_of (brokers t) x = None)"
      by (simp add: map_of_mark_decommissioned)
    from Cons.prems Some have "\<exists>x\<in>set ids. map_of (brokers (mark_decommissioned b t)) x = None"
      by (auto simp: same)
    from Cons.IH[OF this] Some show ?thesis
      by (simp add: same)
  qed
qed

text \<open>
  C1 (as amended). When some id of the list is no broker id of the topology,
  \<open>decommission_brokers\<close> raises \<open>InvalidBrokerIdError\<close>; no replica is moved (the
  partitions, the groups and the partition set of every broker are as before), and the
  brokers named before the first unknown id, and only they, have been marked
  decommissioned.
\<close>

theorem decommission_brokers_invalid_id:
  assumes "\<exists>b\<in>set ids. map_of (brokers t) b = None"
  shows "\<exists>t'. decommission_brokers C ids t = Raised InvalidBrokerIdError t'
           \<and> partitions t' = partitions t \<and> rgs t' = rgs t
           \<and> map fst (brokers t') = map fst (brokers t)
           \<and> (\<forall>b br. map_of (brokers t) b = Some br \<longrightarrow>
                 map_of (brokers t') b =
                   Some (br\<lparr>decommissioned := decommissioned br
                         \<or> b \<in> set (takeWhile (\<lambda>b. map_of (brokers t) b \<noteq> None) ids)\<rparr>))"
  using mark_brokers_invalid[OF assms, of "[]"]
  by (simp add: decommission_brokers_def fold_mark_fields map_of_fold_mark)

text \<open>The theorem at the ids 1 and 9 of a topology with the brokers 1 to 4.\<close>

theorem decommission_brokers_invalid_id_witness:
  "(\<exists>b\<in>set [1, 9]. map_of (brokers topology_two_groups) b = None)
   \<and> (\<exists>t'. decommission_brokers example_collaborators [1, 9] topology_two_groups
              = Raised InvalidBrokerIdError t'
          \<and> partitions t' = partitions topology_two_groups
          \<and> map_of (brokers t') 1 = Some ((mk_broker ''a'' [(''t'', 0)])\<lparr>decommissioned := True\<rparr>)
          \<and> map_of (brokers t') 3 = Some (mk_broker ''b'' [(''t'', 0)]))"
proof -
  have h: "\<exists>b\<in>set [1, 9]. map_of (brokers topology_two_groups) b = None"
    by (simp add: topology_two_groups_def)
  from decommission_brokers_invalid_id[OF h, of example_collaborators]
  obtain t' where t': "decommission_brokers example_collaborators [1, 9] topology_two_groups
              = Raised InvalidBrokerIdError t'" "partitions t' = partitions topology_two_groups"
     "\<forall>b br. map_of (brokers topology_two_groups) b = Some br \<longrightarrow>
                 map_of (brokers t') b =
                   Some (br\<lparr>decommissioned := decommissioned br
                         \<or> b \<in> set (takeWhile (\<lambda>b. map_of (brokers topology_two_groups) b \<noteq> None) [1, 9])\<rparr>)"
    by blast
  have "map_of (brokers t') 1 = Some ((mk_broker ''a'' [(''t'', 0)])\<lparr>decommissioned := True\<rparr>)"
    using t'(3)[rule_format, of 1 "mk_broker ''a'' [(''t'', 0)]"]
    by (simp add: topology_two_groups_def mk_broker_def)
  moreover have "map_of (brokers t') 3 = Some (mk_broker ''b'' [(''t'', 0)])"
    using t'(3)[rule_format, of 3 "mk_broker ''b'' [(''t'', 0)]"]
    by (simp add: topology_two_groups_def mk_broker_def)
  ultimately show ?thesis using h t'(1,2) by blast
qed

text \<open>
  C1 as stated fails: with the ids 1 (known) and 9 (unknown) the error is raised after
  broker 1 has been marked, so the topology is not the one the call started with.
\<close>

theorem decommission_brokers_counterexample:
  "decommission_brokers example_collaborators [1, 9] topology_two_groups
     = Raised InvalidBrokerIdError (mark_decommissioned 1 topology_two_groups)
   \<and> mark_decommissioned 1 topology_two_groups \<noteq> topology_two_groups
   \<and> broker_decommissioned (mark_decommissioned 1 topology_two_groups) 1
   \<and> \<not> broker_decommissioned topology_two_groups 1"
  by (simp add: decommission_brokers_def topology_two_groups_def mark_decommissioned_def
      broker_decommissioned_def mk_broker_def)

section \<open>add\_broker\<close>

text \<open>
  C10. \<open>add_broker\<close> is idempotent: adding a broker that is already a member leaves
  the group as it is, so adding a broker twice gives the same brokers as adding it once.
\<close>

theorem add_broker_idempotent:
  "(b \<in> set (rg_brokers g) \<longrightarrow> add_broker g b = g)
   \<and> add_broker (add_broker g b) b = add_broker g b
   \<and> set (rg_brokers (add_broker (add_broker g b) b)) = set (rg_brokers (add_broker g b))"
  by (simp add: add_broker_def)

theorem add_broker_idempotent_witness:
  "1 \<in> set (rg_brokers (mk_rg ''a'' [1, 2]))
   \<and> add_broker (mk_rg ''a'' [1, 2]) 1 = mk_rg ''a'' [1, 2]
   \<and> add_broker (add_broker (mk_rg ''a'' [1, 2]) 5) 5 = mk_rg ''a'' [1, 2, 5]"
  using add_broker_idempotent[of 1 "mk_rg ''a'' [1, 2]"] add_broker_idempotent[of 5 "mk_rg ''a'' [1, 2]"]
  by (simp add: mk_rg_def add_broker_def)

section \<open>remove\_replica: the checks before the first round\<close>

lemma osr_brokers_None_iff:
  "osr_brokers t ids = None \<longleftrightarrow> (\<exists>b\<in>set ids. map_of (brokers t) b = None)"
  by (induction ids) (auto split: option.splits)

text \<open>
  C9. \<open>remove_replica\<close> checks the partition name first, then the replication factor,
  then the out-of-sync ids: with a known partition and a count below the replication
  factor, an id that is no broker id raises \<open>InvalidBrokerIdError\<close> before any round
  of removal starts, and the topology is unchanged.
\<close>

theorem remove_replica_invalid_osr_id:
  "(map_of (partitions t) pn = None \<longrightarrow>
      remove_replica C pn ids cnt t = Raised InvalidPartitionError t)
   \<and> (\<forall>pt. map_of (partitions t) pn = Some pt \<and> int (length (replicas pt)) \<le> cnt \<longrightarrow>
      remove_replica C pn ids cnt t = Raised InvalidReplicationFactorError t)
   \<and> (\<forall>pt. map_of (partitions t) pn = Some pt \<and> cnt < int (length (replicas pt))
        \<and> (\<exists>b\<in>set ids. map_of (brokers t) b = None) \<longrightarrow>
      remove_replica C pn ids cnt t = Raised InvalidBrokerIdError t
      \<and> fst (remove_replica_rounds C pn ids cnt t) = [])"
  using osr_brokers_None_iff[of t ids]
  by (auto simp: remove_replica_def remove_replica_rounds_def)

theorem remove_replica_invalid_osr_id_witness:
  "map_of (partitions topology_two_groups) (''t'', 0) = Some \<lparr>replicas = [1, 3, 4]\<rparr>
   \<and> (1::int) < int (length (replicas \<lparr>replicas = [1, 3, 4]\<rparr>))
   \<and> (\<exists>b\<in>set [1, 9]. map_of (brokers topology_two_groups) b = None)
   \<and> remove_replica example_collaborators (''t'', 0) [1, 9] 1 topology_two_groups
       = Raised InvalidBrokerIdError topology_two_groups"
proof -
  have a: "map_of (partitions topology_two_groups) (''t'', 0) = Some \<lparr>replicas = [1, 3, 4]\<rparr>"
    by (simp add: topology_two_groups_def)
  have b: "(1::int) < int (length (replicas \<lparr>replicas = [1, 3, 4]\<rparr>))" by simp
  have c: "\<exists>b\<in>set [1, 9]. map_of (brokers topology_two_groups) b = None"
    by (simp add: topology_two_groups_def)
  from remove_replica_invalid_osr_id[of topology_two_groups "(''t'', 0)" example_collaborators "[1, 9]" 1]
    a b c show ?thesis by blast
qed

section \<open>rebalance with max\_movement\_size\<close>

text \<open>
  C3 (as amended). When \<open>max_movement_size\<close> is set to a value Python takes as true (a
  number other than 0), \<open>rebalance\<close> ends the process with exit status 1 before any
  pass runs; the topology is unchanged, and no exception of the planner is raised.
\<close>

theorem rebalance_max_movement_size_exits:
  "truthy (args_max_movement_size args) \<Longrightarrow>
     rebalance C args t = Exited 1 t \<and> \<not> is_raised (rebalance C args t)"
  by (simp add: rebalance_def)

theorem rebalance_max_movement_size_exits_witness:
  "truthy (args_max_movement_size args_movement_size)
   \<and> rebalance example_collaborators args_movement_size topology_two_groups
       = Exited 1 topology_two_groups"
  using rebalance_max_movement_size_exits[of args_movement_size example_collaborators topology_two_groups]
  by (simp add: truthy_def args_movement_size_def)

text \<open>
  C3 as stated fails: with \<open>max_movement_size = 1024\<close> the call does not raise an error
  to the caller; it exits.
\<close>

theorem rebalance_max_movement_size_counterexample:
  "args_max_movement_size args_movement_size = Some 1024
   \<and> \<not> is_raised (rebalance example_collaborators args_movement_size topology_two_groups)"
  by (simp add: rebalance_def truthy_def args_movement_size_def)

section \<open>Moving a partition when no pair of brokers is legal\<close>

lemma sort_key_Nil_iff: "sort_key f xs = [] \<longleftrightarrow> xs = []"
  by (metis length_0_conv length_sort)

text \<open>
  C7. The claim asks for a silent skip when no legal pair of brokers exists. The code
  does otherwise: when every broker of the destination group holds the partition, or
  no broker of the source group holds it, both \<open>move_partition_replica\<close> and
  \<open>move_partition\<close> raise \<open>ValueError\<close> (from \<open>max\<close> or \<open>min\<close> of an empty
  sequence); the topology is unchanged.
\<close>

theorem move_without_legal_pair_raises:
  assumes "(\<forall>b\<in>set (rg_brokers dst). p \<in> set (broker_partitions t b))
           \<or> (\<forall>b\<in>set (rg_brokers src). p \<notin> set (broker_partitions t b))"
  shows "move_partition_replica t src dst p = Raised ValueError t
         \<and> move_partition t src dst p = Raised ValueError t"
proof -
  let ?under = "filter (\<lambda>b. p \<notin> set (broker_partitions t b)) (rg_brokers dst)"
  let ?over = "filter (\<lambda>b. p \<in> set (broker_partitions t b)) (rg_brokers src)"
  from assms have e: "?under = [] \<or> ?over = []"
    by (auto simp: filter_empty_conv)
  have 1: "get_eligible_broker_pair t src dst p = Inl ValueError"
    using e by (auto simp: get_eligible_broker_pair_def py_max_None_iff py_min_None_iff
        split: option.splits)
  have 2: "select_broker_pair t src dst p = Inl ValueError"
    using e by (auto simp: select_broker_pair_def elect_source_broker_def elect_dest_broker_def
        select_over_loaded_brokers_def select_under_loaded_brokers_def
        py_max_None_iff py_min_None_iff sort_key_Nil_iff split: option.splits)
  show ?thesis by (simp add: 1 2 move_partition_replica_def move_partition_def)
qed

text \<open>
  The theorem at a group of three brokers and a group of one broker that all hold the
  partition: the only broker of the destination holds it already. The partition is
  eligible in the second pass over the groups, which therefore ends with the
  \<open>ValueError\<close> as well.
\<close>

theorem move_without_legal_pair_raises_witness:
  "rg_brokers (mk_rg ''b'' [4]) = [4]
   \<and> (''t'', 0) \<in> set (broker_partitions topology_full_destination 4)
   \<and> move_partition_replica topology_full_destination (mk_rg ''a'' [1, 2, 3]) (mk_rg ''b'' [4]) (''t'', 0)
       = Raised ValueError topology_full_destination
   \<and> move_partition topology_full_destination (mk_rg ''a'' [1, 2, 3]) (mk_rg ''b'' [4]) (''t'', 0)
       = Raised ValueError topology_full_destination
   \<and> eligible_partitions topology_full_destination (mk_rg ''a'' [1, 2, 3]) (mk_rg ''b'' [4])
       = [(''t'', 0)]
   \<and> rebalance_groups_partition_cnt topology_full_destination
       = Raised ValueError topology_full_destination"
proof -
  have g: "rg_brokers (mk_rg ''b'' [4]) = [4]
      \<and> (''t'', 0) \<in> set (broker_partitions topology_full_destination 4)"
    by (simp add: mk_rg_def topology_full_destination_def broker_partitions_def mk_broker_def)
  then have h: "\<forall>b\<in>set (rg_brokers (mk_rg ''b'' [4])).
      (''t'', 0) \<in> set (broker_partitions topology_full_destination b)"
    by simp
  have e: "eligible_partitions topology_full_destination (mk_rg ''a'' [1, 2, 3]) (mk_rg ''b'' [4])
       = [(''t'', 0)]" by code_simp
  have r: "rebalance_groups_partition_cnt topology_full_destination
       = Raised ValueError topology_full_destination" by code_simp
  from move_without_legal_pair_raises[of "mk_rg ''b'' [4]" "(''t'', 0)" topology_full_destination
      "mk_rg ''a'' [1, 2, 3]"] h g e r
  show ?thesis by blast
qed

section \<open>Leadership rebalance\<close>















section \<open>The order of choices\<close>


lemma py_max_first:
  "py_max f xs = Some x \<Longrightarrow>
     \<exists>pre post. xs = pre @ x # post \<and> (\<forall>y\<in>set pre. f y < f x) \<and> (\<forall>y\<in>set post. f y \<le> f x)"
proof (induction xs arbitrary: x)
  case Nil
  then show ?case by simp
next
  case (Cons a xs)
  show ?case
  proof (cases "py_max f xs")
    case None
    then have "xs = []" by (simp add: py_max_None_iff)
    with Cons.prems have "a # xs = [] @ x # [] \<and> (\<forall>y\<in>set []. f y < f x) \<and> (\<forall>y\<in>set []. f y \<le> f x)"
      by simp
    then show ?thesis by blast
  next
    case (Some y)
    from Cons.IH[OF Some] obtain pre post where
      xs: "xs = pre @ y # post" and pre: "\<forall>z\<in>set pre. f z < f y" and post: "\<forall>z\<in>set post. f z \<le> f y"
      by blast
    show ?thesis
    proof (cases "f a < f y")
      case True
      with Cons.prems Some have "x = y" by simp
      with xs pre post True have "a # xs = (a # pre) @ x # post \<and> (\<forall>z\<in>set (a # pre). f z < f x)
          \<and> (\<forall>z\<in>set post. f z \<le> f x)" by auto
      then show ?thesis by blast
    next
      case False
      with Cons.prems Some have xa: "x = a" by simp
      have "\<forall>z\<in>set xs. f z \<le> f a"
        using xs pre post False by (auto simp: not_less intro: order_trans less_imp_le)
      with xa have "a # xs = [] @ x # xs \<and> (\<forall>z\<in>set []. f z < f x) \<and> (\<forall>z\<in>set xs. f z \<le> f x)"
        by simp
      then show ?thesis by blast
    qed
  qed
qed

lemma filter_True_self: "filter (\<lambda>_. True) xs = xs"
  by simp


lemma removal_candidates_filter:
  assumes "removal_candidates t p wo ne = Inr cands"
  shows "\<exists>P. cands = filter P (if wo \<noteq> [] then wo else ne)"
proof -
  let ?c = "if wo \<noteq> [] then wo else ne"
  from assms obtain a where
    "cands = (if filter (\<lambda>rg. count_replica t rg p > a) ?c \<noteq> []
              then filter (\<lambda>rg. count_replica t rg p > a) ?c else ?c)"
    by (auto simp: removal_candidates_def Let_def split: option.splits)
  then have "cands = filter (\<lambda>rg. count_replica t rg p > a) ?c \<or> cands = filter (\<lambda>_. True) ?c"
    by (simp split: if_splits)
  then show ?thesis by blast
qed




section \<open>add\_replica: the replication-factor check\<close>

lemma select_addition_rg_errors:
  "select_addition_rg t p nf = Inl e \<Longrightarrow> e = ZeroDivisionError \<or> e = ValueError"
  by (auto simp: select_addition_rg_def addition_candidates_def Let_def
      split: sum.splits option.splits if_splits)

lemma add_replica_loop_no_replication_factor_error:
  assumes "\<forall>rg q s s'. rg_add_replica C rg q s \<noteq> Raised InvalidReplicationFactorError s'"
  shows "add_replica_loop C p n nf t \<noteq> Raised InvalidReplicationFactorError s'"
proof (induction n arbitrary: nf t)
  case 0
  show ?case by simp
next
  case (Suc n)
  show ?case
  proof (cases "select_addition_rg t p nf")
    case (Inl e)
    with select_addition_rg_errors[OF Inl] show ?thesis by auto
  next
    case (Inr rg)
    show ?thesis
    proof (cases "rg_add_replica C rg p t")
      case (Returned t')
      with Inr Suc show ?thesis by (simp split: option.splits)
    next
      case (Raised e s)
      from assms have "rg_add_replica C rg p t \<noteq> Raised InvalidReplicationFactorError s'"
        by blast
      with Inr Raised show ?thesis by simp
    next
      case (Exited m s)
      with Inr show ?thesis by simp
    qed
  qed
qed

text \<open>
  C2 (as amended). For a known partition, \<open>add_replica\<close> raises
  \<open>InvalidReplicationFactorError\<close> exactly when the current factor plus the count
  exceeds the number of all brokers of the topology (inactive and decommissioned ones
  included), provided the group-level \<open>add_replica\<close> raises no such error itself; the
  topology is unchanged when it is raised.
\<close>

theorem add_replica_replication_factor_error:
  assumes "map_of (partitions t) pn = Some pt"
    and "\<forall>rg q s s'. rg_add_replica C rg q s \<noteq> Raised InvalidReplicationFactorError s'"
  shows "(int (length (replicas pt)) + cnt > int (length (brokers t)) \<longrightarrow>
            add_replica C pn cnt t = Raised InvalidReplicationFactorError t)
         \<and> ((\<exists>s. add_replica C pn cnt t = Raised InvalidReplicationFactorError s)
              \<longleftrightarrow> int (length (replicas pt)) + cnt > int (length (brokers t)))"
  using assms(1) add_replica_loop_no_replication_factor_error[OF assms(2)]
  by (auto simp: add_replica_def)

lemma spec_rg_add_replica_no_replication_factor_error:
  "spec_rg_add_replica rg q s \<noteq> Raised InvalidReplicationFactorError s'"
  by (simp add: spec_rg_add_replica_def split: option.splits)

text \<open>
  The theorem at a topology of two brokers and a partition of factor 1: two more
  replicas are refused, one more is not.
\<close>

theorem add_replica_replication_factor_error_witness:
  "map_of (partitions topology_inactive) (''t'', 0) = Some \<lparr>replicas = [1]\<rparr>
   \<and> (\<forall>rg q s s'. rg_add_replica example_collaborators rg q s \<noteq> Raised InvalidReplicationFactorError s')
   \<and> add_replica example_collaborators (''t'', 0) 2 topology_inactive
       = Raised InvalidReplicationFactorError topology_inactive
   \<and> (\<nexists>s. add_replica example_collaborators (''t'', 0) 1 topology_inactive
       = Raised InvalidReplicationFactorError s)"
proof -
  have a: "map_of (partitions topology_inactive) (''t'', 0) = Some \<lparr>replicas = [1]\<rparr>"
    by (simp add: topology_inactive_def)
  have b: "\<forall>rg q s s'. rg_add_replica example_collaborators rg q s \<noteq> Raised InvalidReplicationFactorError s'"
    by (simp add: example_collaborators_def spec_rg_add_replica_no_replication_factor_error)
  have c: "length (brokers topology_inactive) = 2" by (simp add: topology_inactive_def)
  from add_replica_replication_factor_error[OF a b, of 2] add_replica_replication_factor_error[OF a b, of 1] c
  have "add_replica example_collaborators (''t'', 0) 2 topology_inactive
       = Raised InvalidReplicationFactorError topology_inactive
   \<and> (\<nexists>s. add_replica example_collaborators (''t'', 0) 1 topology_inactive
       = Raised InvalidReplicationFactorError s)" by simp
  with a b show ?thesis by blast
qed

text \<open>
  C2 as stated fails: with one active and one inactive broker, a second replica exceeds
  the count of active brokers, yet no error is raised and the replica is placed.
\<close>

theorem add_replica_active_brokers_counterexample:
  "active_broker_count topology_inactive = 1
   \<and> int (length (partition_replicas topology_inactive (''t'', 0))) + 1
        > int (active_broker_count topology_inactive)
   \<and> (case add_replica example_collaborators (''t'', 0) 1 topology_inactive of
        Returned t' \<Rightarrow> partition_replicas t' (''t'', 0) = [1, 2] | _ \<Rightarrow> False)"
  by code_simp

section \<open>The second pass over the replication groups\<close>



lemma broker_partitions_remove:
  "broker_partitions (broker_remove_partition s p t) b =
     (if b = s then remove1 p (broker_partitions t b) else broker_partitions t b)"
  by (simp add: broker_partitions_def broker_remove_partition_def map_of_map_entry
      split: option.splits)















section \<open>remove\_replica: the out-of-sync brokers in each round\<close>

lemma osr_brokers_Some: "osr_brokers t ids = Some osr \<Longrightarrow> osr = ids"
  by (induction ids arbitrary: osr) (auto split: option.splits)

lemma count_list_pos_iff: "0 < count_list xs x \<longleftrightarrow> x \<in> set xs"
  by (induction xs) auto

lemma count_replica_pos_iff:
  "0 < count_replica t g p \<longleftrightarrow> (\<exists>b\<in>set (rg_brokers g). p \<in> set (broker_partitions t b))"
  by (auto simp: count_replica_def rg_partitions_def count_list_pos_iff)

lemma count_replica_zero_iff:
  "count_replica t g p = 0 \<longleftrightarrow> \<not> (\<exists>b\<in>set (rg_brokers g). p \<in> set (broker_partitions t b))"
  using count_replica_pos_iff[of t g p] by auto

lemma py_max_in_set: "py_max f xs = Some x \<Longrightarrow> x \<in> set xs"
  using py_max_first[of f xs x] by auto

lemma select_removal_rg_member:
  assumes "select_removal_rg t p wo ne = Inr rg"
  shows "rg \<in> set (if wo \<noteq> [] then wo else ne)"
proof -
  from assms obtain cands where c: "removal_candidates t p wo ne = Inr cands"
    and m: "py_max (\<lambda>rg. length (rg_partitions t rg)) cands = Some rg"
    by (auto simp: select_removal_rg_def split: sum.splits option.splits)
  from removal_candidates_filter[OF c] obtain P where "cands = filter P (if wo \<noteq> [] then wo else ne)"
    by blast
  with py_max_in_set[OF m] show ?thesis by auto
qed

lemma distinct_length_one:
  "distinct xs \<Longrightarrow> b \<in> set xs \<Longrightarrow> (length xs = 1) = (set xs - {b} = {})"
proof (cases xs)
  case Nil
  assume "b \<in> set xs" with Nil show ?thesis by simp
next
  case (Cons a ys)
  assume d: "distinct xs" and b: "b \<in> set xs"
  show ?thesis
  proof (cases ys)
    case Nil
    with Cons b show ?thesis by auto
  next
    case (Cons c zs)
    with \<open>xs = a # ys\<close> d have "a \<noteq> c" by auto
    with Cons \<open>xs = a # ys\<close> show ?thesis by auto
  qed
qed


text \<open>
  One round keeps the three lists in step with the topology, when the group-level
  removal keeps its contract.
\<close>

lemma removal_step:
  fixes t t' :: cluster_topology
  assumes G: "groups_ok t" and PL: "placement_ok t p"
    and I1: "set osr = {b \<in> set ids. b \<in> set (partition_replicas t p)}"
    and I2: "set wo = {g \<in> set (map snd (rgs t)).
                0 < count_replica t g p \<and> (\<exists>b\<in>set (rg_brokers g). b \<in> set osr)}"
    and I3: "set ne = {g \<in> set (map snd (rgs t)). 0 < count_replica t g p}"
    and dw: "distinct wo" and dn: "distinct ne"
    and sel: "rg \<in> set (if wo \<noteq> [] then wo else ne)"
    and ret: "rg_remove_replica C rg p (filter (\<lambda>b. b \<in> set osr) (rg_brokers rg)) t = Returned t'"
    and con: "removal_contract C p"
  defines "osr' \<equiv> filter (\<lambda>b. b \<in> set (partition_replicas t' p)) osr"
    and "wo' \<equiv> (if rg \<in> set wo \<and> length (filter (\<lambda>b. b \<in> set osr) (rg_brokers rg)) = 1
                 then remove1 rg wo else wo)"
    and "ne' \<equiv> (if count_replica t' rg p = 0 then remove1 rg ne else ne)"
  shows "groups_ok t' \<and> placement_ok t' p
     \<and> set osr' = {b \<in> set ids. b \<in> set (partition_replicas t' p)}
     \<and> set wo' = {g \<in> set (map snd (rgs t')).
                0 < count_replica t' g p \<and> (\<exists>b\<in>set (rg_brokers g). b \<in> set osr')}
     \<and> set ne' = {g \<in> set (map snd (rgs t')). 0 < count_replica t' g p}
     \<and> distinct wo' \<and> distinct ne'"
proof -
  let ?R = "set (partition_replicas t p)" and ?R' = "set (partition_replicas t' p)"
  let ?Gs = "set (map snd (rgs t))"
  let ?oi = "filter (\<lambda>b. b \<in> set osr) (rg_brokers rg)"
  from sel I2 I3 have rgG: "rg \<in> ?Gs" and rgpos: "0 < count_replica t rg p"
    by (auto split: if_splits)
  have hold: "\<And>x. p \<in> set (broker_partitions t x) \<longleftrightarrow> x \<in> ?R"
    using PL by (simp add: placement_ok_def)
  have pre: "set ?oi \<subseteq> {b \<in> set (rg_brokers rg). p \<in> set (broker_partitions t b)}"
    using I1 hold by auto
  from con have c1: "\<forall>osr_in_rg s s'.
        placement_ok s p
        \<and> set osr_in_rg \<subseteq> {b \<in> set (rg_brokers rg). p \<in> set (broker_partitions s b)}
        \<and> rg_remove_replica C rg p osr_in_rg s = Returned s'
        \<longrightarrow> (\<exists>b. b \<in> set (rg_brokers rg) \<and> p \<in> set (broker_partitions s b)
                 \<and> (osr_in_rg \<noteq> [] \<longrightarrow> b \<in> set osr_in_rg)
                 \<and> rgs s' = rgs s \<and> placement_ok s' p
                 \<and> set (partition_replicas s' p) = set (partition_replicas s p) - {b})"
    unfolding removal_contract_def by (rule spec)
  from c1 have c2: "placement_ok t p
        \<and> set ?oi \<subseteq> {b \<in> set (rg_brokers rg). p \<in> set (broker_partitions t b)}
        \<and> rg_remove_replica C rg p ?oi t = Returned t'
        \<longrightarrow> (\<exists>b. b \<in> set (rg_brokers rg) \<and> p \<in> set (broker_partitions t b)
                 \<and> (?oi \<noteq> [] \<longrightarrow> b \<in> set ?oi)
                 \<and> rgs t' = rgs t \<and> placement_ok t' p
                 \<and> set (partition_replicas t' p) = set (partition_replicas t p) - {b})"
    by blast
  from c2 PL pre ret
  obtain b where b1: "b \<in> set (rg_brokers rg)" and b2: "p \<in> set (broker_partitions t b)"
    and b3: "?oi \<noteq> [] \<longrightarrow> b \<in> set ?oi" and b4: "rgs t' = rgs t"
    and b5: "placement_ok t' p" and b6: "?R' = ?R - {b}"
    by blast
  have hold': "\<And>x. p \<in> set (broker_partitions t' x) \<longleftrightarrow> x \<in> ?R'"
    using b5 by (simp add: placement_ok_def)
  have cnt: "\<And>g. 0 < count_replica t g p \<longleftrightarrow> set (rg_brokers g) \<inter> ?R \<noteq> {}"
    using hold by (auto simp: count_replica_pos_iff)
  have cnt': "\<And>g. 0 < count_replica t' g p \<longleftrightarrow> set (rg_brokers g) \<inter> ?R' \<noteq> {}"
    using hold' by (auto simp: count_replica_pos_iff)
  have other: "\<And>g. g \<in> ?Gs \<Longrightarrow> g \<noteq> rg \<Longrightarrow> b \<notin> set (rg_brokers g)"
    using G rgG b1 unfolding groups_ok_def by blast
  have "distinct (rg_brokers rg)" using G rgG unfolding groups_ok_def by blast
  then have doi: "distinct ?oi" by simp
  have G': "groups_ok t'" using G b4 by (simp add: groups_ok_def)
  have J1: "set osr' = {x \<in> set ids. x \<in> ?R'}"
    using I1 b6 by (auto simp: osr'_def)
  have so: "set osr' = set osr - {b}"
    using I1 b6 by (auto simp: osr'_def)
  have osrR: "set osr \<subseteq> ?R" using I1 by auto
  have same_R: "\<And>g. g \<in> ?Gs \<Longrightarrow> g \<noteq> rg \<Longrightarrow> set (rg_brokers g) \<inter> ?R' = set (rg_brokers g) \<inter> ?R"
    using other b6 by auto
  have same_o: "\<And>g. g \<in> ?Gs \<Longrightarrow> g \<noteq> rg \<Longrightarrow>
      set (rg_brokers g) \<inter> set osr' = set (rg_brokers g) \<inter> set osr"
    using other so by auto
  have R'sub: "?R' \<subseteq> ?R" using b6 by auto
  have z: "count_replica t' rg p = 0 \<longleftrightarrow> set (rg_brokers rg) \<inter> ?R' = {}"
    using cnt'[of rg] by auto
  have mem_ne: "\<And>g. g \<in> set ne \<longleftrightarrow> g \<in> ?Gs \<and> set (rg_brokers g) \<inter> ?R \<noteq> {}"
    using I3 cnt by auto
  have keep_R: "\<And>g. g \<in> ?Gs \<Longrightarrow> set (rg_brokers g) \<inter> ?R' \<noteq> {} \<Longrightarrow> set (rg_brokers g) \<inter> ?R \<noteq> {}"
    using R'sub by blast
  have rg_ne: "rg \<in> set ne" using I3 rgG rgpos by simp
  have J3: "set ne' = {g \<in> ?Gs. 0 < count_replica t' g p}"
  proof (rule set_eqI)
    fix g
    show "g \<in> set ne' \<longleftrightarrow> g \<in> {g \<in> ?Gs. 0 < count_replica t' g p}"
    proof (cases "g = rg")
      case True
      show ?thesis
      proof (cases "count_replica t' rg p = 0")
        case z0: True
        then have "rg \<notin> set ne'" using dn by (simp add: ne'_def)
        with True z0 show ?thesis by simp
      next
        case nz: False
        then have "rg \<in> set ne'" using rg_ne by (simp add: ne'_def)
        with True nz rgG show ?thesis by simp
      qed
    next
      case False
      have 1: "g \<in> set ne' \<longleftrightarrow> g \<in> set ne"
        using False dn by (simp add: ne'_def)
      have 2: "g \<in> set ne \<longleftrightarrow> g \<in> ?Gs \<and> set (rg_brokers g) \<inter> ?R \<noteq> {}"
        by (rule mem_ne)
      have 3: "g \<in> ?Gs \<and> set (rg_brokers g) \<inter> ?R \<noteq> {}
                 \<longleftrightarrow> g \<in> ?Gs \<and> set (rg_brokers g) \<inter> ?R' \<noteq> {}"
      proof (cases "g \<in> ?Gs")
        case True
        from same_R[OF True False] True show ?thesis by (simp only:)
      next
        case False
        then show ?thesis by (simp only: simp_thms)
      qed
      have 4: "g \<in> {g \<in> ?Gs. 0 < count_replica t' g p}
                 \<longleftrightarrow> g \<in> ?Gs \<and> set (rg_brokers g) \<inter> ?R' \<noteq> {}"
        by (simp only: mem_Collect_eq cnt')
      show ?thesis by (simp only: 1 2 3 4)
    qed
  qed
  have mem_wo: "\<And>g. g \<in> set wo \<longleftrightarrow> g \<in> ?Gs \<and> set (rg_brokers g) \<inter> set osr \<noteq> {}"
  proof -
    fix g
    have "g \<in> set wo \<longleftrightarrow> g \<in> ?Gs \<and> set (rg_brokers g) \<inter> ?R \<noteq> {}
            \<and> set (rg_brokers g) \<inter> set osr \<noteq> {}"
      using I2 cnt[of g] by auto
    with osrR show "g \<in> set wo \<longleftrightarrow> g \<in> ?Gs \<and> set (rg_brokers g) \<inter> set osr \<noteq> {}"
      by blast
  qed
  have osrR': "set osr' \<subseteq> ?R'" using J1 by auto
  have tgt: "\<And>g. (g \<in> ?Gs \<and> 0 < count_replica t' g p \<and> (\<exists>x\<in>set (rg_brokers g). x \<in> set osr'))
        \<longleftrightarrow> (g \<in> ?Gs \<and> set (rg_brokers g) \<inter> set osr' \<noteq> {})"
  proof -
    fix g
    show "(g \<in> ?Gs \<and> 0 < count_replica t' g p \<and> (\<exists>x\<in>set (rg_brokers g). x \<in> set osr'))
        \<longleftrightarrow> (g \<in> ?Gs \<and> set (rg_brokers g) \<inter> set osr' \<noteq> {})"
      unfolding cnt' using osrR' by blast
  qed
  have oi_set: "set ?oi = set (rg_brokers rg) \<inter> set osr" by auto
  have J2m: "\<And>g. g \<in> set wo' \<longleftrightarrow> g \<in> ?Gs \<and> set (rg_brokers g) \<inter> set osr' \<noteq> {}"
  proof -
    fix g
    show "g \<in> set wo' \<longleftrightarrow> g \<in> ?Gs \<and> set (rg_brokers g) \<inter> set osr' \<noteq> {}"
    proof (cases "rg \<in> set wo")
      case True
      then have "set ?oi \<noteq> {}" using mem_wo[of rg] oi_set by simp
      then have "?oi \<noteq> []" by (simp only: set_empty simp_thms)
      with b3 have bin: "b \<in> set ?oi" by simp
      have one: "(length ?oi = 1) = (set ?oi - {b} = {})"
        using distinct_length_one[OF doi bin] .
      have rg': "set (rg_brokers rg) \<inter> set osr' = set ?oi - {b}"
        using so oi_set by blast
      show ?thesis
      proof (cases "length ?oi = 1")
        case l: True
        then have s1: "set wo' = set wo - {rg}" using True dw by (simp add: wo'_def)
        show ?thesis
        proof (cases "g = rg")
          case True
          with s1 rg' one l show ?thesis by simp
        next
          case False
          with s1 mem_wo[of g] same_o[of g] show ?thesis by auto
        qed
      next
        case l: False
        then have s1: "set wo' = set wo" by (simp add: wo'_def)
        show ?thesis
        proof (cases "g = rg")
          case g: True
          with s1 rg' one l True rgG show ?thesis by simp
        next
          case False
          with s1 mem_wo[of g] same_o[of g] show ?thesis by auto
        qed
      qed
    next
      case False
      then have e: "set (rg_brokers rg) \<inter> set osr = {}" using mem_wo[of rg] rgG by simp
      then have e': "set (rg_brokers rg) \<inter> set osr' = {}" using so by blast
      from False have s1: "set wo' = set wo" by (simp add: wo'_def)
      show ?thesis
      proof (cases "g = rg")
        case True
        with s1 False e' show ?thesis by simp
      next
        case g: False
        with s1 mem_wo[of g] same_o[of g] show ?thesis by auto
      qed
    qed
  qed
  have J2: "set wo' = {g \<in> set (map snd (rgs t')).
                0 < count_replica t' g p \<and> (\<exists>b\<in>set (rg_brokers g). b \<in> set osr')}"
    unfolding b4 by (rule set_eqI) (simp only: mem_Collect_eq J2m tgt)
  have dW: "distinct wo'" using dw by (simp add: wo'_def)
  have dN: "distinct ne'" using dn by (simp add: ne'_def)
  from J3 b4 have J3': "set ne' = {g \<in> set (map snd (rgs t')). 0 < count_replica t' g p}"
    by simp
  show ?thesis by (intro conjI) (rule G' b5 J1 J2 J3' dW dN)+
qed


lemma fst_case_cons:
  "fst (case x of (rounds, r) \<Rightarrow> (y # rounds, r)) = y # fst x"
  by (simp add: split_beta)

lemma remove_replica_loop_Suc_returned:
  assumes "select_removal_rg t p wo ne = Inr rg"
    and "rg_remove_replica C rg p (filter (\<lambda>b. b \<in> set osr) (rg_brokers rg)) t = Returned t'"
  shows "fst (remove_replica_loop C p (Suc n) osr wo ne t) =
     \<lparr>rr_osr = osr, rr_rgs_with_osr = wo, rr_non_empty_rgs = ne, rr_topology = t\<rparr>
       # (if count_replica t' rg p = 0 \<and> rg \<notin> set ne then []
          else fst (remove_replica_loop C p n
                 (filter (\<lambda>b. b \<in> set (partition_replicas t' p)) osr)
                 (if rg \<in> set wo \<and> length (filter (\<lambda>b. b \<in> set osr) (rg_brokers rg)) = 1
                  then remove1 rg wo else wo)
                 (if count_replica t' rg p = 0 then remove1 rg ne else ne) t'))"
  using assms by (simp add: Let_def list_remove_def fst_case_cons)

lemma ball_round_cons:
  "P r \<Longrightarrow> \<forall>x\<in>set xs. P x \<Longrightarrow> \<forall>x\<in>set (r # (if A then [] else xs)). P x"
  by simp

lemma remove_replica_loop_rounds:
  assumes con: "removal_contract C p"
  shows "groups_ok t \<Longrightarrow> placement_ok t p
     \<Longrightarrow> set osr = {b \<in> set ids. b \<in> set (partition_replicas t p)}
     \<Longrightarrow> set wo = {g \<in> set (map snd (rgs t)).
                0 < count_replica t g p \<and> (\<exists>b\<in>set (rg_brokers g). b \<in> set osr)}
     \<Longrightarrow> set ne = {g \<in> set (map snd (rgs t)). 0 < count_replica t g p}
     \<Longrightarrow> distinct wo \<Longrightarrow> distinct ne
     \<Longrightarrow> \<forall>r\<in>set (fst (remove_replica_loop C p n osr wo ne t)). round_as_claimed ids p r"
proof (induction n arbitrary: osr wo ne t)
  case 0
  show ?case by simp
next
  case (Suc n)
  let ?round = "\<lparr>rr_osr = osr, rr_rgs_with_osr = wo, rr_non_empty_rgs = ne, rr_topology = t\<rparr>"
  have hr: "round_as_claimed ids p ?round"
    using Suc.prems(3,4,5) by (simp add: round_as_claimed_def)
  show ?case
  proof (cases "select_removal_rg t p wo ne")
    case (Inl e)
    then have "fst (remove_replica_loop C p (Suc n) osr wo ne t) = [?round]"
      by (simp add: Let_def)
    with hr show ?thesis by simp
  next
    case (Inr rg)
    let ?oi = "filter (\<lambda>b. b \<in> set osr) (rg_brokers rg)"
    from select_removal_rg_member[OF Inr] have sel: "rg \<in> set (if wo \<noteq> [] then wo else ne)" .
    show ?thesis
    proof (cases "rg_remove_replica C rg p ?oi t")
      case (Raised e s)
      with Inr have "fst (remove_replica_loop C p (Suc n) osr wo ne t) = [?round]"
        by (simp add: Let_def)
      with hr show ?thesis by simp
    next
      case (Exited m s)
      with Inr have "fst (remove_replica_loop C p (Suc n) osr wo ne t) = [?round]"
        by (simp add: Let_def)
      with hr show ?thesis by simp
    next
      case (Returned t')
      note st = removal_step[OF Suc.prems(1,2,3,4,5,6,7) sel Returned con]
      have ih: "\<forall>r\<in>set (fst (remove_replica_loop C p n
                 (filter (\<lambda>b. b \<in> set (partition_replicas t' p)) osr)
                 (if rg \<in> set wo \<and> length ?oi = 1 then remove1 rg wo else wo)
                 (if count_replica t' rg p = 0 then remove1 rg ne else ne) t')).
          round_as_claimed ids p r"
      proof (rule Suc.IH)
        show "groups_ok t'" using st by (rule conjunct1)
        show "placement_ok t' p" using st by (elim conjE)
        show "set (filter (\<lambda>b. b \<in> set (partition_replicas t' p)) osr)
            = {b \<in> set ids. b \<in> set (partition_replicas t' p)}" using st by (elim conjE)
        show "set (if rg \<in> set wo \<and> length ?oi = 1 then remove1 rg wo else wo)
            = {g \<in> set (map snd (rgs t')). 0 < count_replica t' g p
                 \<and> (\<exists>b\<in>set (rg_brokers g).
                       b \<in> set (filter (\<lambda>b. b \<in> set (partition_replicas t' p)) osr))}"
          using st by (elim conjE)
        show "set (if count_replica t' rg p = 0 then remove1 rg ne else ne)
            = {g \<in> set (map snd (rgs t')). 0 < count_replica t' g p}" using st by (elim conjE)
        show "distinct (if rg \<in> set wo \<and> length ?oi = 1 then remove1 rg wo else wo)"
          using st by (elim conjE)
        show "distinct (if count_replica t' rg p = 0 then remove1 rg ne else ne)"
          using st by (elim conjE)
      qed
      show ?thesis
        unfolding remove_replica_loop_Suc_returned[OF Inr Returned]
        by (rule ball_round_cons[OF hr ih])
    qed
  qed
qed

lemma fst_case_outcome:
  "fst (case x of (rounds, r) \<Rightarrow>
          (case r of Returned t' \<Rightarrow> (rounds, f t')
           | Raised e s \<Rightarrow> (rounds, Raised e s)
           | Exited m s \<Rightarrow> (rounds, Exited m s))) = fst x"
  by (cases x; cases "snd x") simp_all

text \<open>
  C4 (as amended). On a topology where every broker belongs to one group and the
  placement of the partition is consistent, when every id of \<open>osr_broker_ids\<close> names
  a broker that holds a replica of the partition and the group-level removal keeps its
  contract, then in every round that \<open>remove_replica\<close> starts the out-of-sync list is
  the set of the brokers named by the ids that hold a replica at that moment, and the
  preferred groups are the groups holding the partition that contain such a broker.
\<close>

theorem remove_replica_osr_rounds:
  assumes G: "groups_ok t" and PL: "placement_ok t pn"
    and ids: "set ids \<subseteq> set (partition_replicas t pn)"
    and con: "removal_contract C pn"
  shows "\<forall>r\<in>set (fst (remove_replica_rounds C pn ids cnt t)). round_as_claimed ids pn r"
proof (cases "map_of (partitions t) pn")
  case None
  then show ?thesis by (simp add: remove_replica_rounds_def)
next
  case (Some pt)
  show ?thesis
  proof (cases "int (length (replicas pt)) \<le> cnt")
    case True
    with Some show ?thesis by (simp add: remove_replica_rounds_def)
  next
    case False
    show ?thesis
    proof (cases "osr_brokers t ids")
      case None
      with Some False show ?thesis by (simp add: remove_replica_rounds_def)
    next
      case (Some osr)
      then have osr: "osr = ids" by (rule osr_brokers_Some)
      let ?ne = "non_empty_rgs_of t pn"
      let ?wo = "rgs_with_osr_of ids ?ne"
      have i1: "set ids = {b \<in> set ids. b \<in> set (partition_replicas t pn)}"
        using ids by auto
      have i3: "set ?ne = {g \<in> set (map snd (rgs t)). 0 < count_replica t g pn}"
        by (auto simp: non_empty_rgs_of_def)
      have i2: "set ?wo = {g \<in> set (map snd (rgs t)).
                0 < count_replica t g pn \<and> (\<exists>b\<in>set (rg_brokers g). b \<in> set ids)}"
        by (auto simp: rgs_with_osr_of_def non_empty_rgs_of_def list_ex_iff)
      have d: "distinct ?ne" "distinct ?wo"
        using G by (simp_all add: groups_ok_def non_empty_rgs_of_def rgs_with_osr_of_def)
      have "\<forall>r\<in>set (fst (remove_replica_loop C pn (nat cnt) ids ?wo ?ne t)).
              round_as_claimed ids pn r"
        using remove_replica_loop_rounds[OF con G PL i1 i2 i3 d(2) d(1)] .
      moreover have "fst (remove_replica_rounds C pn ids cnt t)
          = fst (remove_replica_loop C pn (nat cnt) ids ?wo ?ne t)"
        using \<open>map_of (partitions t) pn = Some pt\<close> False Some osr
        by (simp add: remove_replica_rounds_def Let_def fst_case_outcome)
      ultimately show ?thesis by simp
    qed
  qed
qed

text \<open>The group-level removal modelled from the spec keeps the contract.\<close>

lemma partition_replicas_remove_same:
  "partition_replicas (broker_remove_partition b p s) p = remove1 b (partition_replicas s p)"
  by (simp add: partition_replicas_def broker_remove_partition_def map_of_map_entry
      split: option.splits)

lemma broker_remove_partition_placement:
  assumes PL: "placement_ok s p" and h: "p \<in> set (broker_partitions s b)"
  shows "rgs (broker_remove_partition b p s) = rgs s
     \<and> placement_ok (broker_remove_partition b p s) p
     \<and> set (partition_replicas (broker_remove_partition b p s) p)
         = set (partition_replicas s p) - {b}"
proof -
  let ?s' = "broker_remove_partition b p s"
  from PL have d1: "distinct (partition_replicas s p)"
    and d2: "\<And>x. distinct (broker_partitions s x)"
    and c: "\<And>x. p \<in> set (broker_partitions s x) \<longleftrightarrow> x \<in> set (partition_replicas s p)"
    by (simp_all add: placement_ok_def)
  have r: "rgs ?s' = rgs s" by (simp add: broker_remove_partition_def)
  have R: "set (partition_replicas ?s' p) = set (partition_replicas s p) - {b}"
    using d1 by (simp add: partition_replicas_remove_same)
  have D1: "distinct (partition_replicas ?s' p)"
    using d1 by (simp add: partition_replicas_remove_same)
  have D2: "\<And>x. distinct (broker_partitions ?s' x)"
    using d2 by (simp add: broker_partitions_remove)
  have Cc: "\<And>x. p \<in> set (broker_partitions ?s' x) \<longleftrightarrow> x \<in> set (partition_replicas ?s' p)"
    using d2 c R by (simp add: broker_partitions_remove)
  from r R D1 D2 Cc show ?thesis by (simp add: placement_ok_def)
qed

lemma spec_rg_remove_replica_contract: "removal_contract example_collaborators p"
  unfolding removal_contract_def
proof (intro allI impI, elim conjE)
  fix rg osr_in_rg s s'
  assume PL: "placement_ok s p"
    and sub: "set osr_in_rg \<subseteq> {b \<in> set (rg_brokers rg). p \<in> set (broker_partitions s b)}"
    and ret: "rg_remove_replica example_collaborators rg p osr_in_rg s = Returned s'"
  from ret have ret': "spec_rg_remove_replica rg p osr_in_rg s = Returned s'"
    by (simp add: example_collaborators_def)
  have "\<exists>b. s' = broker_remove_partition b p s \<and> b \<in> set (rg_brokers rg)
          \<and> p \<in> set (broker_partitions s b) \<and> (osr_in_rg \<noteq> [] \<longrightarrow> b \<in> set osr_in_rg)"
  proof (cases osr_in_rg)
    case Nil
    with ret' obtain b where
      m: "py_max (\<lambda>b. length (broker_partitions s b))
            (filter (\<lambda>b. p \<in> set (broker_partitions s b)) (rg_brokers rg)) = Some b"
      and s': "s' = broker_remove_partition b p s"
      by (auto simp: spec_rg_remove_replica_def split: option.splits)
    from py_max_in_set[OF m] s' Nil show ?thesis by auto
  next
    case (Cons b rest)
    with ret' have "s' = broker_remove_partition b p s"
      by (simp add: spec_rg_remove_replica_def)
    with Cons sub show ?thesis by auto
  qed
  then obtain b where s': "s' = broker_remove_partition b p s"
    and b: "b \<in> set (rg_brokers rg)" "p \<in> set (broker_partitions s b)"
      "osr_in_rg \<noteq> [] \<longrightarrow> b \<in> set osr_in_rg"
    by blast
  have "b \<in> set (rg_brokers rg) \<and> p \<in> set (broker_partitions s b)
            \<and> (osr_in_rg \<noteq> [] \<longrightarrow> b \<in> set osr_in_rg)
            \<and> rgs s' = rgs s \<and> placement_ok s' p
            \<and> set (partition_replicas s' p) = set (partition_replicas s p) - {b}"
    unfolding s' using broker_remove_partition_placement[OF PL b(2)] b by blast
  then show "\<exists>b. b \<in> set (rg_brokers rg) \<and> p \<in> set (broker_partitions s b)
            \<and> (osr_in_rg \<noteq> [] \<longrightarrow> b \<in> set osr_in_rg)
            \<and> rgs s' = rgs s \<and> placement_ok s' p
            \<and> set (partition_replicas s' p) = set (partition_replicas s p) - {b}"
    by (rule exI)
qed

lemma groups_ok_two_groups: "groups_ok topology_two_groups"
  by (simp add: groups_ok_def topology_two_groups_def mk_rg_def)

lemma placement_ok_two_groups: "placement_ok topology_two_groups (''t'', 0)"
  by (auto simp: placement_ok_def partition_replicas_def broker_partitions_def
      topology_two_groups_def mk_broker_def)

text \<open>
  The theorem at two groups, the partition on the brokers 1, 3 and 4, broker 3 out of
  sync, two replicas to remove: broker 3 goes first, then there is no out-of-sync
  broker and no preferred group.
\<close>

theorem remove_replica_osr_rounds_witness:
  "groups_ok topology_two_groups
   \<and> placement_ok topology_two_groups (''t'', 0)
   \<and> set [3] \<subseteq> set (partition_replicas topology_two_groups (''t'', 0))
   \<and> removal_contract example_collaborators (''t'', 0)
   \<and> map rr_osr (fst (remove_replica_rounds example_collaborators (''t'', 0) [3] 2 topology_two_groups))
       = [[3], []]
   \<and> map (map rg_ident \<circ> rr_rgs_with_osr)
         (fst (remove_replica_rounds example_collaborators (''t'', 0) [3] 2 topology_two_groups))
       = [[''b''], []]
   \<and> list_all (round_as_claimed [3] (''t'', 0))
         (fst (remove_replica_rounds example_collaborators (''t'', 0) [3] 2 topology_two_groups))"
proof -
  have i: "set [3] \<subseteq> set (partition_replicas topology_two_groups (''t'', 0))"
    by (simp add: partition_replicas_def topology_two_groups_def)
  have a: "map rr_osr (fst (remove_replica_rounds example_collaborators (''t'', 0) [3] 2 topology_two_groups))
       = [[3], []]" by code_simp
  have b: "map (map rg_ident \<circ> rr_rgs_with_osr)
         (fst (remove_replica_rounds example_collaborators (''t'', 0) [3] 2 topology_two_groups))
       = [[''b''], []]" by code_simp
  from remove_replica_osr_rounds[OF groups_ok_two_groups placement_ok_two_groups i
      spec_rg_remove_replica_contract, of 2]
  have c: "list_all (round_as_claimed [3] (''t'', 0))
         (fst (remove_replica_rounds example_collaborators (''t'', 0) [3] 2 topology_two_groups))"
    by (simp add: list_all_iff)
  from groups_ok_two_groups placement_ok_two_groups i spec_rg_remove_replica_contract a b c
  show ?thesis by blast
qed

text \<open>
  C4 as stated fails: the id 2 names a broker that holds no replica of the partition;
  the out-of-sync list of the first round is still \<open>[2]\<close>, and group \<open>a\<close>, which
  holds the partition on broker 1 only, is the preferred group.
\<close>

theorem remove_replica_osr_counterexample:
  "map rr_osr (fst (remove_replica_rounds example_collaborators (''t'', 0) [2] 1 topology_two_groups))
       = [[2]]
   \<and> {b \<in> set [2]. b \<in> set (partition_replicas topology_two_groups (''t'', 0))} = {}
   \<and> map (map rg_ident \<circ> rr_rgs_with_osr)
         (fst (remove_replica_rounds example_collaborators (''t'', 0) [2] 1 topology_two_groups))
       = [[''a'']]"
proof -
  have a: "map rr_osr (fst (remove_replica_rounds example_collaborators (''t'', 0) [2] 1 topology_two_groups))
       = [[2]]" by code_simp
  have b: "{b \<in> set [2]. b \<in> set (partition_replicas topology_two_groups (''t'', 0))} = {}"
    by (simp add: partition_replicas_def topology_two_groups_def)
  have c: "map (map rg_ident \<circ> rr_rgs_with_osr)
         (fst (remove_replica_rounds example_collaborators (''t'', 0) [2] 1 topology_two_groups))
       = [[''a'']]" by code_simp
  from a b c show ?thesis by blast
qed

end
